theory Spec2Isabelle
  imports Complex_Main "HOL-Library.Multiset"
begin

section \<open>Python values\<close>

text \<open>
  A Python \<open>str\<close> is a sequence of Unicode code points. Isabelle's \<open>char\<close> has
  eight bits only, so a string is modelled as the list of its code points; \<open>str\<close> turns
  an ASCII literal into such a list.
\<close>

type_synonym pystr = "nat list"

definition str :: "string \<Rightarrow> pystr" where
  "str s = map of_char s"

text \<open>
  The value \<open>json.load\<close> returns: \<open>None\<close>, a \<open>bool\<close>, an \<open>int\<close>, a \<open>float\<close>,
  a \<open>str\<close>, a \<open>list\<close> or a \<open>dict\<close> with \<open>str\<close> keys. A \<open>dict\<close> is the
  association list of its items in insertion order; a key is looked up with \<open>map_of\<close>.
\<close>

datatype json =
    JNull
  | JBool bool
  | JInt int
  | JFloat real
  | JStr pystr
  | JList "json list"
  | JDict "(pystr \<times> json) list"

text \<open>The exceptions the modelled code can raise.\<close>

datatype py_error = AttributeError | TypeError | KeyError | ValueError

text \<open>Sequencing of computations that may raise: the first exception ends the run.\<close>

definition bnd :: "py_error + 'a \<Rightarrow> ('a \<Rightarrow> py_error + 'b) \<Rightarrow> py_error + 'b" where
  "bnd m f = (case m of Inl e \<Rightarrow> Inl e | Inr x \<Rightarrow> f x)"

text \<open>\<open>d.get(k, default)\<close>: only a \<open>dict\<close> has the method.\<close>

definition py_get :: "json \<Rightarrow> pystr \<Rightarrow> json \<Rightarrow> py_error + json" where
  "py_get d k dflt =
     (case d of
        JDict kvs \<Rightarrow> (case map_of kvs k of None \<Rightarrow> Inr dflt | Some v \<Rightarrow> Inr v)
      | _ \<Rightarrow> Inl AttributeError)"

text \<open>\<open>d[k]\<close> with a \<open>str\<close> key: a missing key of a \<open>dict\<close> is a \<open>KeyError\<close>, a
  \<open>list\<close> or \<open>str\<close> takes no \<open>str\<close> index and nothing else is subscriptable.\<close>

definition py_getitem :: "json \<Rightarrow> pystr \<Rightarrow> py_error + json" where
  "py_getitem d k =
     (case d of
        JDict kvs \<Rightarrow> (case map_of kvs k of None \<Rightarrow> Inl KeyError | Some v \<Rightarrow> Inr v)
      | _ \<Rightarrow> Inl TypeError)"

text \<open>Iteration, as \<open>for x in v\<close> and \<open>join\<close> do it: a \<open>list\<close> yields its items, a
  \<open>str\<close> its characters, a \<open>dict\<close> its keys; nothing else is iterable.\<close>

definition py_iter :: "json \<Rightarrow> py_error + json list" where
  "py_iter v =
     (case v of
        JList xs \<Rightarrow> Inr xs
      | JStr s \<Rightarrow> Inr (map (\<lambda>c. JStr [c]) s)
      | JDict kvs \<Rightarrow> Inr (map (\<lambda>kv. JStr (fst kv)) kvs)
      | _ \<Rightarrow> Inl TypeError)"

text \<open>\<open>sep.join(v)\<close>: every item must be a \<open>str\<close>.\<close>

fun join_strs :: "pystr \<Rightarrow> json list \<Rightarrow> py_error + pystr" where
  "join_strs sep [] = Inr []"
| "join_strs sep [JStr s] = Inr s"
| "join_strs sep (JStr s # x # xs) = bnd (join_strs sep (x # xs)) (\<lambda>r. Inr (s @ sep @ r))"
| "join_strs sep (_ # xs) = Inl TypeError"

definition py_join :: "pystr \<Rightarrow> json \<Rightarrow> py_error + pystr" where
  "py_join sep v = bnd (py_iter v) (join_strs sep)"

text \<open>
  \<open>v.lower()\<close>: only a \<open>str\<close> has the method. What it does to the code points is the
  interpreter's Unicode lowercasing, which the model takes as the parameter \<open>lower\<close> of
  every function that calls it: a theorem about all records then holds for whatever
  \<open>str.lower\<close> computes.
\<close>

definition py_lower :: "(pystr \<Rightarrow> pystr) \<Rightarrow> json \<Rightarrow> py_error + pystr" where
  "py_lower lower v = (case v of JStr s \<Rightarrow> Inr (lower s) | _ \<Rightarrow> Inl AttributeError)"

text \<open>
  \<open>str.lower\<close> on a string of ASCII code points, where it only maps \<open>A\<close>..\<open>Z\<close> to
  \<open>a\<close>..\<open>z\<close>. It stands for \<open>lower\<close> wherever the model is evaluated on a concrete
  ASCII input.
\<close>

definition ascii_lower :: "pystr \<Rightarrow> pystr" where
  "ascii_lower s = map (\<lambda>c. if 65 \<le> c \<and> c \<le> 90 then c + 32 else c) s"

text \<open>\<open>w in s\<close> for two \<open>str\<close>: \<open>w\<close> occurs in \<open>s\<close> as a contiguous run.\<close>

fun starts_with :: "pystr \<Rightarrow> pystr \<Rightarrow> bool" where
  "starts_with [] s = True"
| "starts_with (c # w) [] = False"
| "starts_with (c # w) (d # s) = (c = d \<and> starts_with w s)"

fun isin :: "pystr \<Rightarrow> pystr \<Rightarrow> bool" where
  "isin w [] = (w = [])"
| "isin w (c # s) = (starts_with w (c # s) \<or> isin w s)"

section \<open>The classifier (analyze_modernism.py)\<close>

text \<open>The expression \<open>paper.get('bibjson', {}).get(key, default)\<close>.\<close>

definition bibjson_get :: "json \<Rightarrow> pystr \<Rightarrow> json \<Rightarrow> py_error + json" where
  "bibjson_get paper key dflt =
     bnd (py_get paper (str ''bibjson'') (JDict [])) (\<lambda>bibjson. py_get bibjson key dflt)"

definition early_indicators :: "pystr list" where
  "early_indicators =
     [str ''wilde'', str ''aestheticism'', str ''decadence'',
      str ''fin de si'' @ [232] @ str ''cle'', str ''symbolism'', str ''pater'',
      str ''beardsley'', str ''symons'']"

definition high_indicators :: "pystr list" where
  "high_indicators =
     [str ''pound'', str ''eliot'', str ''joyce'', str ''woolf'', str ''yeats'',
      str ''imagism'', str ''vorticism'', str ''stream of consciousness'',
      str ''waste land'', str ''ulysses'']"

definition late_indicators :: "pystr list" where
  "late_indicators =
     [str ''auden'', str ''spender'', str ''isherwood'', str ''macneice'',
      str ''thirties'', str ''1930s'', str ''spanish civil war'', str ''world war ii'']"

text \<open>\<open>sum(1 for indicator in indicators if indicator in content)\<close>.\<close>

definition count_indicators :: "pystr list \<Rightarrow> pystr \<Rightarrow> nat" where
  "count_indicators indicators content =
     length (filter (\<lambda>indicator. isin indicator content) indicators)"

text \<open>Lines 13 to 17 of \<open>categorize_by_era\<close>: the text the indicators are searched in.\<close>

definition era_content :: "(pystr \<Rightarrow> pystr) \<Rightarrow> json \<Rightarrow> py_error + pystr" where
  "era_content lower paper =
     bnd (bnd (bibjson_get paper (str ''abstract'') (JStr [])) (py_lower lower)) (\<lambda>abstract.
     bnd (bnd (bnd (bibjson_get paper (str ''keywords'') (JList [])) (py_join (str '' '')))
            (\<lambda>joined. Inr (lower joined))) (\<lambda>keywords.
     bnd (bnd (bibjson_get paper (str ''title'') (JStr [])) (py_lower lower)) (\<lambda>title.
     bnd (bibjson_get paper (str ''year'') (JStr [])) (\<lambda>year.
     Inr (lower (title @ str '' '' @ abstract @ str '' '' @ keywords))))))"

text \<open>Lines 23 to 25: the three counts, early, high and late.\<close>

definition era_counts :: "pystr \<Rightarrow> nat \<times> nat \<times> nat" where
  "era_counts content =
     (count_indicators early_indicators content,
      count_indicators high_indicators content,
      count_indicators late_indicators content)"

text \<open>Lines 27 to 34: the label chosen from the counts.\<close>

definition era_of_counts :: "nat \<times> nat \<times> nat \<Rightarrow> pystr" where
  "era_of_counts counts =
     (case counts of (early_count, high_count, late_count) \<Rightarrow>
        if early_count > high_count \<and> early_count > late_count
          then str ''Early Modernism (1890s-1910s)''
        else if high_count > early_count \<and> high_count > late_count
          then str ''High Modernism (1910s-1920s)''
        else if late_count > early_count \<and> late_count > high_count
          then str ''Late Modernism (1930s-1950s)''
        else str ''General Modernism'')"

definition categorize_by_era :: "(pystr \<Rightarrow> pystr) \<Rightarrow> json \<Rightarrow> py_error + pystr" where
  "categorize_by_era lower paper =
     bnd (era_content lower paper) (\<lambda>content. Inr (era_of_counts (era_counts content)))"

text \<open>Lines 37 to 40 of \<open>categorize_by_medium\<close>: the text the words are searched in.\<close>

definition medium_content :: "(pystr \<Rightarrow> pystr) \<Rightarrow> json \<Rightarrow> py_error + pystr" where
  "medium_content lower paper =
     bnd (bibjson_get paper (str ''journal'') (JDict [])) (\<lambda>journal_info.
     bnd (bnd (py_get journal_info (str ''title'') (JStr [])) (py_lower lower)) (\<lambda>journal_title.
     bnd (bnd (py_get journal_info (str ''publisher'') (JStr [])) (py_lower lower)) (\<lambda>publisher.
     Inr (journal_title @ str '' '' @ publisher))))"

text \<open>The two word lists of lines 42 and 44.\<close>

definition academic_words :: "pystr list" where
  "academic_words =
     [str ''journal'', str ''review'', str ''studies'', str ''quarterly'',
      str ''university'', str ''research'']"

definition literary_words :: "pystr list" where
  "literary_words =
     [str ''magazine'', str ''letters'', str ''writing'', str ''poetry'',
      str ''literature'', str ''arts'']"

text \<open>Lines 42 to 47: \<open>any(word in content for word in words)\<close> is \<open>list_ex\<close>.\<close>

definition medium_of_content :: "pystr \<Rightarrow> pystr" where
  "medium_of_content content =
     (if list_ex (\<lambda>word. isin word content) academic_words
        then str ''Academic Journal''
      else if list_ex (\<lambda>word. isin word content) literary_words
        then str ''Literary Magazine''
      else str ''Other Publication'')"

definition categorize_by_medium :: "(pystr \<Rightarrow> pystr) \<Rightarrow> json \<Rightarrow> py_error + pystr" where
  "categorize_by_medium lower paper =
     bnd (medium_content lower paper) (\<lambda>content. Inr (medium_of_content content))"

text \<open>
  The dictionary \<open>extract_metadata_for_analysis\<close> returns: field \<open>m_k\<close> is the value
  under the key \<open>k\<close>. No value is checked for its type, so each is a \<open>json\<close>;
  \<open>None\<close> is \<open>JNull\<close>.
\<close>

record metadata =
  m_id :: json
  m_title :: json
  m_authors :: "json list"
  m_year :: json
  m_journal :: json
  m_publisher :: json
  m_country :: json
  m_keywords :: json
  m_abstract :: json
  m_doi :: json
  m_full_text_links :: "json list"
  m_subjects :: "json list"

text \<open>A list comprehension \<open>[f(x) for x in xs]\<close> whose \<open>f\<close> may raise.\<close>

fun map_raising :: "('a \<Rightarrow> py_error + 'b) \<Rightarrow> 'a list \<Rightarrow> py_error + 'b list" where
  "map_raising f [] = Inr []"
| "map_raising f (x # xs) =
     bnd (f x) (\<lambda>y. bnd (map_raising f xs) (\<lambda>ys. Inr (y # ys)))"

text \<open>
  Line 61, \<open>next((id['id'] for id in identifiers if id.get('type') == 'doi'), None)\<close>:
  the generator is run up to its first item only, so no entry behind it is looked at.
\<close>

fun first_doi :: "json list \<Rightarrow> py_error + json" where
  "first_doi [] = Inr JNull"
| "first_doi (ident # idents) =
     bnd (py_get ident (str ''type'') JNull) (\<lambda>t.
       if t = JStr (str ''doi'') then py_getitem ident (str ''id'') else first_doi idents)"

text \<open>Line 62, \<open>[link['url'] for link in links if link.get('type') == 'fulltext']\<close>.\<close>

fun fulltext_urls :: "json list \<Rightarrow> py_error + json list" where
  "fulltext_urls [] = Inr []"
| "fulltext_urls (link # links) =
     bnd (py_get link (str ''type'') JNull) (\<lambda>t.
       if t = JStr (str ''fulltext'')
       then bnd (py_getitem link (str ''url'')) (\<lambda>url.
            bnd (fulltext_urls links) (\<lambda>urls. Inr (url # urls)))
       else fulltext_urls links)"

definition extract_metadata_for_analysis :: "json \<Rightarrow> py_error + metadata" where
  "extract_metadata_for_analysis paper =
     bnd (py_get paper (str ''bibjson'') (JDict [])) (\<lambda>bibjson.
     bnd (py_get paper (str ''id'') JNull) (\<lambda>v_id.
     bnd (py_get bibjson (str ''title'') (JStr [])) (\<lambda>v_title.
     bnd (bnd (bnd (py_get bibjson (str ''author'') (JList [])) py_iter)
            (map_raising (\<lambda>author. py_get author (str ''name'') (JStr [])))) (\<lambda>v_authors.
     bnd (py_get bibjson (str ''year'') (JStr [])) (\<lambda>v_year.
     bnd (bnd (py_get bibjson (str ''journal'') (JDict []))
            (\<lambda>j. py_get j (str ''title'') (JStr []))) (\<lambda>v_journal.
     bnd (bnd (py_get bibjson (str ''journal'') (JDict []))
            (\<lambda>j. py_get j (str ''publisher'') (JStr []))) (\<lambda>v_publisher.
     bnd (bnd (py_get bibjson (str ''journal'') (JDict []))
            (\<lambda>j. py_get j (str ''country'') (JStr []))) (\<lambda>v_country.
     bnd (py_get bibjson (str ''keywords'') (JList [])) (\<lambda>v_keywords.
     bnd (py_get bibjson (str ''abstract'') (JStr [])) (\<lambda>v_abstract.
     bnd (bnd (bnd (py_get bibjson (str ''identifier'') (JList [])) py_iter) first_doi) (\<lambda>v_doi.
     bnd (bnd (bnd (py_get bibjson (str ''link'') (JList [])) py_iter) fulltext_urls) (\<lambda>v_links.
     bnd (bnd (bnd (py_get bibjson (str ''subject'') (JList [])) py_iter)
            (map_raising (\<lambda>subj. py_get subj (str ''term'') (JStr [])))) (\<lambda>v_subjects.
     Inr \<lparr>m_id = v_id, m_title = v_title, m_authors = v_authors, m_year = v_year,
          m_journal = v_journal, m_publisher = v_publisher, m_country = v_country,
          m_keywords = v_keywords, m_abstract = v_abstract, m_doi = v_doi,
          m_full_text_links = v_links, m_subjects = v_subjects\<rparr>)))))))))))))"

text \<open>\<open>{**metadata, 'era': era, 'medium': medium}\<close>: the metadata and the two labels.\<close>

record classified = metadata +
  m_era :: pystr
  m_medium :: pystr

text \<open>
  A \<open>defaultdict(list)\<close> is the association list of its items in insertion order;
  \<open>d[k].append(v)\<close> extends the list under \<open>k\<close>, which a new key gets at the end.
\<close>

fun append_bucket :: "pystr \<Rightarrow> 'a \<Rightarrow> (pystr \<times> 'a list) list \<Rightarrow> (pystr \<times> 'a list) list" where
  "append_bucket k v [] = [(k, [v])]"
| "append_bucket k v ((k', vs) # rest) =
     (if k' = k then (k', vs @ [v]) # rest else (k', vs) # append_bucket k v rest)"

text \<open>The three collections the loop of \<open>analyze_doaj_modernism\<close> fills, and its result.\<close>

record analysis =
  era_categories :: "(pystr \<times> metadata list) list"
  medium_categories :: "(pystr \<times> metadata list) list"
  all_metadata :: "classified list"

text \<open>Lines 73 to 79: one run of the loop body.\<close>

definition process_paper :: "(pystr \<Rightarrow> pystr) \<Rightarrow> json \<Rightarrow> analysis \<Rightarrow> py_error + analysis" where
  "process_paper lower paper st =
     bnd (categorize_by_era lower paper) (\<lambda>era.
     bnd (categorize_by_medium lower paper) (\<lambda>medium.
     bnd (extract_metadata_for_analysis paper) (\<lambda>metadata.
     Inr \<lparr>era_categories = append_bucket era metadata (era_categories st),
          medium_categories = append_bucket medium metadata (medium_categories st),
          all_metadata = all_metadata st @
            [metadata.extend metadata (classified.fields era medium)]\<rparr>)))"

fun analyze_loop :: "(pystr \<Rightarrow> pystr) \<Rightarrow> json list \<Rightarrow> analysis \<Rightarrow> py_error + analysis" where
  "analyze_loop lower [] st = Inr st"
| "analyze_loop lower (paper # papers) st =
     bnd (process_paper lower paper st) (\<lambda>st'. analyze_loop lower papers st')"

text \<open>
  \<open>analyze_doaj_modernism\<close> on the value \<open>data\<close> that \<open>load_doaj_results\<close> read. The
  lines printed are not modelled; of what they evaluate, only \<open>data['total']\<close> can raise
  (the titles and journals they slice and sort are of type \<open>str\<close> once both classifiers
  have returned).
\<close>

definition analyze_doaj_modernism :: "(pystr \<Rightarrow> pystr) \<Rightarrow> json \<Rightarrow> py_error + analysis" where
  "analyze_doaj_modernism lower data =
     bnd (bnd (py_getitem data (str ''results'')) py_iter) (\<lambda>papers.
     bnd (analyze_loop lower papers
            \<lparr>era_categories = [], medium_categories = [], all_metadata = []\<rparr>) (\<lambda>st.
     bnd (py_getitem data (str ''total'')) (\<lambda>total. Inr st)))"

section \<open>The reporter (create_analysis_format.py)\<close>

text \<open>
  \<open>v.isdigit()\<close> and \<open>int(s)\<close>. Which code points count as digits, and the number a
  string of them stands for, are the interpreter's: the parameters \<open>isdigit\<close> and
  \<open>to_int\<close>. On ASCII strings they are \<open>ascii_isdigit\<close> and \<open>ascii_int\<close>.
\<close>

definition py_isdigit :: "(pystr \<Rightarrow> bool) \<Rightarrow> json \<Rightarrow> py_error + bool" where
  "py_isdigit isdigit v = (case v of JStr s \<Rightarrow> Inr (isdigit s) | _ \<Rightarrow> Inl AttributeError)"

definition py_int :: "(pystr \<Rightarrow> py_error + int) \<Rightarrow> json \<Rightarrow> py_error + int" where
  "py_int to_int v =
     (case v of
        JStr s \<Rightarrow> to_int s
      | JInt n \<Rightarrow> Inr n
      | JBool b \<Rightarrow> Inr (if b then 1 else 0)
      | JFloat x \<Rightarrow> Inr (if x < 0 then \<lceil>x\<rceil> else \<lfloor>x\<rfloor>)
      | _ \<Rightarrow> Inl TypeError)"

definition ascii_isdigit :: "pystr \<Rightarrow> bool" where
  "ascii_isdigit s = (s \<noteq> [] \<and> list_all (\<lambda>c. 48 \<le> c \<and> c \<le> 57) s)"

definition ascii_int :: "pystr \<Rightarrow> py_error + int" where
  "ascii_int s =
     (if ascii_isdigit s then Inr (fold (\<lambda>c n. 10 * n + int (c - 48)) s 0)
      else Inl ValueError)"

text \<open>
  The generator \<open>(int(p['year']) for p in results['all_metadata'] if p['year'].isdigit())\<close>
  of lines 61 and 62, run to its end.
\<close>

fun year_ints ::
  "(pystr \<Rightarrow> bool) \<Rightarrow> (pystr \<Rightarrow> py_error + int) \<Rightarrow> json list \<Rightarrow> py_error + int list" where
  "year_ints isdigit to_int [] = Inr []"
| "year_ints isdigit to_int (p # ps) =
     bnd (bnd (py_getitem p (str ''year'')) (py_isdigit isdigit)) (\<lambda>numeric.
       if numeric
       then bnd (bnd (py_getitem p (str ''year'')) (py_int to_int)) (\<lambda>n.
            bnd (year_ints isdigit to_int ps) (\<lambda>ns. Inr (n # ns)))
       else year_ints isdigit to_int ps)"

text \<open>\<open>min\<close> and \<open>max\<close> of the numbers a generator yields: none is a \<open>ValueError\<close>.\<close>

definition py_min :: "int list \<Rightarrow> py_error + int" where
  "py_min ns = (case ns of [] \<Rightarrow> Inl ValueError | n # rest \<Rightarrow> Inr (fold min rest n))"

definition py_max :: "int list \<Rightarrow> py_error + int" where
  "py_max ns = (case ns of [] \<Rightarrow> Inl ValueError | n # rest \<Rightarrow> Inr (fold max rest n))"

text \<open>
  The entry \<open>'year_range'\<close> that \<open>create_structured_output\<close> computes from
  \<open>results['all_metadata']\<close> (lines 60 to 63): the pair of \<open>'earliest'\<close> and \<open>'latest'\<close>.
\<close>

definition year_range ::
  "(pystr \<Rightarrow> bool) \<Rightarrow> (pystr \<Rightarrow> py_error + int) \<Rightarrow> json list \<Rightarrow> py_error + int \<times> int" where
  "year_range isdigit to_int all_md =
     bnd (bnd (year_ints isdigit to_int all_md) py_min) (\<lambda>earliest.
     bnd (bnd (year_ints isdigit to_int all_md) py_max) (\<lambda>latest.
     Inr (earliest, latest)))"

section \<open>Records of the declared types\<close>

text \<open>
  The specification's record has typed fields, each of which may be absent. On the
  \<open>json\<close> value of a paper this reads: \<open>field_ok d k ok\<close> holds when \<open>d\<close> is a
  \<open>dict\<close> whose key \<open>k\<close> is absent or holds a value that satisfies \<open>ok\<close>.
\<close>

definition is_str :: "json \<Rightarrow> bool" where
  "is_str v = (case v of JStr s \<Rightarrow> True | _ \<Rightarrow> False)"

definition is_dict :: "json \<Rightarrow> bool" where
  "is_dict v = (case v of JDict kvs \<Rightarrow> True | _ \<Rightarrow> False)"

definition is_list_of :: "(json \<Rightarrow> bool) \<Rightarrow> json \<Rightarrow> bool" where
  "is_list_of ok v = (case v of JList xs \<Rightarrow> list_all ok xs | _ \<Rightarrow> False)"

definition field_ok :: "json \<Rightarrow> pystr \<Rightarrow> (json \<Rightarrow> bool) \<Rightarrow> bool" where
  "field_ok d k ok =
     (case d of
        JDict kvs \<Rightarrow> (case map_of kvs k of None \<Rightarrow> True | Some v \<Rightarrow> ok v)
      | _ \<Rightarrow> False)"

definition journal_typed :: "json \<Rightarrow> bool" where
  "journal_typed j \<longleftrightarrow>
     field_ok j (str ''title'') is_str \<and> field_ok j (str ''publisher'') is_str"

text \<open>The text fields the two classifiers read: strings, and a list of strings.\<close>

definition text_fields_typed :: "json \<Rightarrow> bool" where
  "text_fields_typed paper \<longleftrightarrow>
     field_ok paper (str ''bibjson'') (\<lambda>bibjson.
       field_ok bibjson (str ''title'') is_str \<and>
       field_ok bibjson (str ''abstract'') is_str \<and>
       field_ok bibjson (str ''keywords'') (is_list_of is_str) \<and>
       field_ok bibjson (str ''journal'') journal_typed)"

text \<open>An entry of a sequence: a \<open>dict\<close> that has the key \<open>k\<close> when its \<open>'type'\<close> is \<open>t\<close>.\<close>

definition has_key_if :: "pystr \<Rightarrow> pystr \<Rightarrow> json \<Rightarrow> bool" where
  "has_key_if t k v =
     (case v of
        JDict kvs \<Rightarrow>
          (if map_of kvs (str ''type'') = Some (JStr t)
           then (case map_of kvs k of None \<Rightarrow> False | Some u \<Rightarrow> True) else True)
      | _ \<Rightarrow> False)"

text \<open>The sequences the metadata is extracted from: lists of \<open>dict\<close> entries.\<close>

definition sequence_fields_typed :: "json \<Rightarrow> bool" where
  "sequence_fields_typed paper \<longleftrightarrow>
     field_ok paper (str ''bibjson'') (\<lambda>bibjson.
       field_ok bibjson (str ''author'') (is_list_of is_dict) \<and>
       field_ok bibjson (str ''identifier'') (is_list_of (has_key_if (str ''doi'') (str ''id''))) \<and>
       field_ok bibjson (str ''link'') (is_list_of (has_key_if (str ''fulltext'') (str ''url''))) \<and>
       field_ok bibjson (str ''subject'') (is_list_of is_dict))"

text \<open>The value of \<open>paper.get('bibjson', {})\<close> for a paper that is a \<open>dict\<close>.\<close>

definition the_bibjson :: "json \<Rightarrow> json" where
  "the_bibjson paper =
     (case paper of
        JDict kvs \<Rightarrow> (case map_of kvs (str ''bibjson'') of None \<Rightarrow> JDict [] | Some b \<Rightarrow> b)
      | _ \<Rightarrow> JNull)"

text \<open>The labels the two classifiers can return, as the source spells them.\<close>

definition era_labels :: "pystr list" where
  "era_labels =
     [str ''Early Modernism (1890s-1910s)'', str ''High Modernism (1910s-1920s)'',
      str ''Late Modernism (1930s-1950s)'', str ''General Modernism'']"

definition medium_labels :: "pystr list" where
  "medium_labels =
     [str ''Academic Journal'', str ''Literary Magazine'', str ''Other Publication'']"

section \<open>Notions the properties are stated with\<close>

text \<open>The expression \<open>paper.get('bibjson', {}).get('journal', {}).get(key, default)\<close>.\<close>

definition journal_get :: "json \<Rightarrow> pystr \<Rightarrow> json \<Rightarrow> py_error + json" where
  "journal_get paper key dflt =
     bnd (bibjson_get paper (str ''journal'') (JDict [])) (\<lambda>journal. py_get journal key dflt)"

text \<open>The list a category holds, empty for a label that is no key.\<close>

definition bucket :: "(pystr \<times> 'a list) list \<Rightarrow> pystr \<Rightarrow> 'a list" where
  "bucket cats label = (case map_of cats label of None \<Rightarrow> [] | Some ms \<Rightarrow> ms)"

text \<open>Lines 73 to 75 and 79: the classified record made from one paper.\<close>

definition classify_record :: "(pystr \<Rightarrow> pystr) \<Rightarrow> json \<Rightarrow> py_error + classified" where
  "classify_record lower paper =
     bnd (categorize_by_era lower paper) (\<lambda>era.
     bnd (categorize_by_medium lower paper) (\<lambda>medium.
     bnd (extract_metadata_for_analysis paper) (\<lambda>metadata.
     Inr (metadata.extend metadata (classified.fields era medium)))))"

text \<open>
  What the loop keeps true of its three collections: the keys of a category are
  pairwise different, the list under a label holds the metadata of the records
  classified with that label, in their order, and the lists of all labels together
  hold the metadata of every record once.
\<close>

definition partitioned :: "analysis \<Rightarrow> bool" where
  "partitioned st \<longleftrightarrow>
     distinct (map fst (era_categories st)) \<and>
     distinct (map fst (medium_categories st)) \<and>
     (\<forall>label. bucket (era_categories st) label =
        map metadata.truncate (filter (\<lambda>c. m_era c = label) (all_metadata st))) \<and>
     (\<forall>label. bucket (medium_categories st) label =
        map metadata.truncate (filter (\<lambda>c. m_medium c = label) (all_metadata st))) \<and>
     mset (concat (map snd (era_categories st))) = mset (map metadata.truncate (all_metadata st)) \<and>
     mset (concat (map snd (medium_categories st))) = mset (map metadata.truncate (all_metadata st))"

text \<open>
  The record in which every field that is absent has been put in with its empty value:
  \<open>set_default\<close> is \<open>dict.setdefault\<close>, \<open>fill\<close> applies it for a list of keys and
  \<open>on_key\<close> changes the value under one key.
\<close>

definition set_default :: "pystr \<Rightarrow> json \<Rightarrow> (pystr \<times> json) list \<Rightarrow> (pystr \<times> json) list" where
  "set_default k v kvs = (case map_of kvs k of None \<Rightarrow> kvs @ [(k, v)] | Some u \<Rightarrow> kvs)"

definition fill :: "(pystr \<times> json) list \<Rightarrow> (pystr \<times> json) list \<Rightarrow> (pystr \<times> json) list" where
  "fill defaults kvs = fold (\<lambda>kv. set_default (fst kv) (snd kv)) defaults kvs"

definition on_key :: "pystr \<Rightarrow> (json \<Rightarrow> json) \<Rightarrow> (pystr \<times> json) list \<Rightarrow> (pystr \<times> json) list" where
  "on_key k f kvs = map (\<lambda>kv. if fst kv = k then (fst kv, f (snd kv)) else kv) kvs"

text \<open>The keys the code reads with \<open>get\<close>, each with the default the code gives it.\<close>

definition journal_defaults :: "(pystr \<times> json) list" where
  "journal_defaults =
     [(str ''title'', JStr []), (str ''publisher'', JStr []), (str ''country'', JStr [])]"

definition bibjson_defaults :: "(pystr \<times> json) list" where
  "bibjson_defaults =
     [(str ''title'', JStr []), (str ''author'', JList []), (str ''year'', JStr []),
      (str ''journal'', JDict []), (str ''keywords'', JList []), (str ''abstract'', JStr []),
      (str ''identifier'', JList []), (str ''link'', JList []), (str ''subject'', JList [])]"

definition paper_defaults :: "(pystr \<times> json) list" where
  "paper_defaults = [(str ''id'', JNull), (str ''bibjson'', JDict [])]"

definition fill_journal :: "json \<Rightarrow> json" where
  "fill_journal j = (case j of JDict kvs \<Rightarrow> JDict (fill journal_defaults kvs) | _ \<Rightarrow> j)"

definition fill_bibjson :: "json \<Rightarrow> json" where
  "fill_bibjson b =
     (case b of
        JDict kvs \<Rightarrow> JDict (on_key (str ''journal'') fill_journal (fill bibjson_defaults kvs))
      | _ \<Rightarrow> b)"

definition with_empty_fields :: "json \<Rightarrow> json" where
  "with_empty_fields paper =
     (case paper of
        JDict kvs \<Rightarrow> JDict (on_key (str ''bibjson'') fill_bibjson (fill paper_defaults kvs))
      | _ \<Rightarrow> paper)"

section \<open>The claimed value of the doi field\<close>

text \<open>
  In the words of the claim: the \<open>'id'\<close> of the first entry of the identifier
  sequence whose \<open>'type'\<close> equals \<open>'doi'\<close>, and \<open>None\<close> when there is none.
\<close>

definition entry_is_doi :: "json \<Rightarrow> bool" where
  "entry_is_doi ident \<longleftrightarrow> py_get ident (str ''type'') JNull = Inr (JStr (str ''doi''))"

definition spec_doi :: "json list \<Rightarrow> py_error + json" where
  "spec_doi idents =
     (case find entry_is_doi idents of
        None \<Rightarrow> Inr JNull
      | Some ident \<Rightarrow> py_getitem ident (str ''id''))"

section \<open>Example inputs\<close>

text \<open>A title with two early indicators (wilde, pater) and two high ones (joyce, woolf).\<close>

definition tie_paper :: json where
  "tie_paper =
     JDict [(str ''bibjson'',
       JDict [(str ''title'', JStr (str ''Wilde and Pater read Joyce and Woolf''))])]"

text \<open>A journal with a literary word (poetry, arts) and an academic one (review).\<close>

definition poetry_review_paper :: json where
  "poetry_review_paper =
     JDict [(str ''bibjson'',
       JDict [(str ''journal'',
         JDict [(str ''title'', JStr (str ''Poetry Review'')),
                (str ''publisher'', JStr (str ''Arts Council''))])])]"

text \<open>A record whose abstract is JSON \<open>null\<close>.\<close>

definition null_abstract_paper :: json where
  "null_abstract_paper =
     JDict [(str ''id'', JStr (str ''a1'')),
            (str ''bibjson'',
       JDict [(str ''title'', JStr (str ''Joyce in Trieste'')),
              (str ''abstract'', JNull)])]"

text \<open>A record with some fields present and of their type, and with abstract, year, subjects,
  publisher, country and one author name absent.\<close>

definition partial_paper :: json where
  "partial_paper =
     JDict [(str ''id'', JStr (str ''a6'')),
            (str ''bibjson'',
       JDict [(str ''title'', JStr (str ''Auden in the Thirties'')),
              (str ''keywords'', JList [JStr (str ''Spender''), JStr (str ''poetry'')]),
              (str ''journal'', JDict [(str ''title'', JStr (str ''Critical Quarterly''))]),
              (str ''author'', JList [JDict [(str ''name'', JStr (str ''B. Writer''))], JDict []]),
              (str ''identifier'',
                 JList [JDict [(str ''type'', JStr (str ''doi'')), (str ''id'', JStr (str ''10.3/x''))]]),
              (str ''link'',
                 JList [JDict [(str ''type'', JStr (str ''homepage''))],
                        JDict [(str ''type'', JStr (str ''fulltext'')),
                               (str ''url'', JStr (str ''http://x.org/1''))]])])]"

text \<open>A record whose keywords and journal title are JSON \<open>null\<close>.\<close>

definition null_keywords_paper :: json where
  "null_keywords_paper =
     JDict [(str ''id'', JStr (str ''a7'')),
            (str ''bibjson'',
       JDict [(str ''title'', JStr (str ''Ulysses'')),
              (str ''keywords'', JNull),
              (str ''journal'', JDict [(str ''title'', JNull)])])]"

text \<open>A record with every field present and empty.\<close>

definition empty_record :: json where
  "empty_record =
     JDict [(str ''id'', JStr []),
            (str ''bibjson'',
       JDict [(str ''title'', JStr []),
              (str ''author'', JList []),
              (str ''year'', JStr []),
              (str ''journal'',
                 JDict [(str ''title'', JStr []), (str ''publisher'', JStr []),
                        (str ''country'', JStr [])]),
              (str ''keywords'', JList []),
              (str ''abstract'', JStr []),
              (str ''identifier'', JList []),
              (str ''link'', JList []),
              (str ''subject'', JList [])])]"

text \<open>A title that ends with \<open>Waste\<close> and an abstract that begins with \<open>Land\<close>.\<close>

definition waste_land_paper :: json where
  "waste_land_paper =
     JDict [(str ''bibjson'',
       JDict [(str ''title'', JStr (str ''Notes on Waste'')),
              (str ''abstract'', JStr (str ''Land reform in rural Ireland''))])]"

text \<open>Identifiers of other types, an upper-case \<open>DOI\<close>, an entry without type, two of type
  \<open>doi\<close> and an entry that is no dictionary.\<close>

definition doi_paper :: json where
  "doi_paper =
     JDict [(str ''id'', JStr (str ''a3'')),
            (str ''bibjson'',
       JDict [(str ''identifier'',
         JList [JDict [(str ''type'', JStr (str ''eissn'')), (str ''id'', JStr (str ''2056-6700''))],
                JDict [(str ''type'', JStr (str ''DOI'')), (str ''id'', JStr (str ''10.0/upper''))],
                JDict [(str ''id'', JStr (str ''10.0/untyped''))],
                JDict [(str ''type'', JStr (str ''doi'')), (str ''id'', JStr (str ''10.1/first''))],
                JDict [(str ''type'', JStr (str ''doi'')), (str ''id'', JStr (str ''10.2/second''))],
                JInt 5])])]"

text \<open>Two records that differ in identifier, year, country, authors and key order, and agree
  on title, abstract, keywords, journal title and publisher.\<close>

definition eliot_paper_a :: json where
  "eliot_paper_a =
     JDict [(str ''id'', JStr (str ''a4'')),
            (str ''bibjson'',
       JDict [(str ''title'', JStr (str ''T.S. Eliot and The Waste Land'')),
              (str ''year'', JStr (str ''2015'')),
              (str ''journal'',
                 JDict [(str ''title'', JStr (str ''Journal of Modern Literature Studies'')),
                        (str ''country'', JStr (str ''GB''))])])]"

definition eliot_paper_b :: json where
  "eliot_paper_b =
     JDict [(str ''bibjson'',
       JDict [(str ''journal'',
                 JDict [(str ''country'', JStr (str ''US'')),
                        (str ''title'', JStr (str ''Journal of Modern Literature Studies''))]),
              (str ''author'', JList [JDict [(str ''name'', JStr (str ''A. Reader''))]]),
              (str ''title'', JStr (str ''T.S. Eliot and The Waste Land'')),
              (str ''keywords'', JList [])]),
            (str ''id'', JStr (str ''a5''))]"

text \<open>A collection of three records: two of the high era in an academic journal, one
  of the late era with no journal.\<close>

definition sample_data :: json where
  "sample_data =
     JDict [(str ''total'', JInt 3),
            (str ''results'', JList
              [JDict [(str ''id'', JStr (str ''r1'')),
                      (str ''bibjson'', JDict [(str ''title'', JStr (str ''Eliot'')),
                         (str ''journal'', JDict [(str ''title'', JStr (str ''Review''))])])],
               JDict [(str ''id'', JStr (str ''r2'')),
                      (str ''bibjson'', JDict [(str ''title'', JStr (str ''Auden''))])],
               JDict [(str ''id'', JStr (str ''r3'')),
                      (str ''bibjson'', JDict [(str ''title'', JStr (str ''Joyce'')),
                         (str ''journal'', JDict [(str ''title'', JStr (str ''Review''))])])]])]"

text \<open>An entry of \<open>all_metadata\<close> as the classifier writes it, with the given identifier
  and year.\<close>

definition classified_json :: "string \<Rightarrow> string \<Rightarrow> json" where
  "classified_json ident year =
     JDict [(str ''id'', JStr (str ident)), (str ''title'', JStr (str ''Untitled'')),
            (str ''authors'', JList []), (str ''year'', JStr (str year)),
            (str ''journal'', JStr []), (str ''publisher'', JStr []),
            (str ''country'', JStr []), (str ''keywords'', JList []),
            (str ''abstract'', JStr []), (str ''doi'', JNull),
            (str ''full_text_links'', JList []), (str ''subjects'', JList []),
            (str ''era'', JStr (str ''General Modernism'')),
            (str ''medium'', JStr (str ''Other Publication''))]"

text \<open>A collection in which no year is numeric, and one in which two of five are.\<close>

definition undated_metadata :: "json list" where
  "undated_metadata = [classified_json ''r1'' ''n.d.'', classified_json ''r2'' '''']"

definition mixed_metadata :: "json list" where
  "mixed_metadata =
     [classified_json ''r1'' ''n.d.'', classified_json ''r2'' ''2015'',
      classified_json ''r3'' '''', classified_json ''r4'' ''1999'',
      classified_json ''r5'' ''c. 2001'']"

section \<open>Properties\<close>

subsection \<open>Sequencing, lookups and substrings\<close>

lemma bnd_Inl [simp]: "bnd (Inl e) f = Inl e"
  by (simp add: bnd_def)

lemma bnd_Inr [simp]: "bnd (Inr x) f = f x"
  by (simp add: bnd_def)

lemma bnd_eq_Inr: "bnd m f = Inr y \<longleftrightarrow> (\<exists>x. m = Inr x \<and> f x = Inr y)"
  by (cases m) simp_all

lemma starts_with_iff: "starts_with w s \<longleftrightarrow> (\<exists>q. s = w @ q)"
  by (induction w s rule: starts_with.induct) auto

lemma isin_iff: "isin w s \<longleftrightarrow> (\<exists>p q. s = p @ w @ q)"
proof (induction s)
  case Nil
  then show ?case by simp
next
  case (Cons c s)
  show ?case
  proof
    assume "isin w (c # s)"
    then consider "starts_with w (c # s)" | "isin w s" by auto
    then show "\<exists>p q. c # s = p @ w @ q"
    proof cases
      case 1
      then obtain q where "c # s = w @ q" by (auto simp: starts_with_iff)
      then have "c # s = [] @ w @ q" by simp
      then show ?thesis by blast
    next
      case 2
      then obtain p q where "s = p @ w @ q" using Cons.IH by blast
      then have "c # s = (c # p) @ w @ q" by simp
      then show ?thesis by blast
    qed
  next
    assume "\<exists>p q. c # s = p @ w @ q"
    then obtain p q where pq: "c # s = p @ w @ q" by blast
    show "isin w (c # s)"
    proof (cases p)
      case Nil
      with pq have "starts_with w (c # s)" by (auto simp: starts_with_iff)
      then show ?thesis by simp
    next
      case (Cons d p')
      with pq have "s = p' @ w @ q" by simp
      then have "isin w s" using Cons.IH by blast
      then show ?thesis by simp
    qed
  qed
qed

lemma era_labels_distinct:
  "str ''Early Modernism (1890s-1910s)'' \<noteq> str ''High Modernism (1910s-1920s)''"
  "str ''Early Modernism (1890s-1910s)'' \<noteq> str ''Late Modernism (1930s-1950s)''"
  "str ''Early Modernism (1890s-1910s)'' \<noteq> str ''General Modernism''"
  "str ''High Modernism (1910s-1920s)'' \<noteq> str ''Late Modernism (1930s-1950s)''"
  "str ''High Modernism (1910s-1920s)'' \<noteq> str ''General Modernism''"
  "str ''Late Modernism (1930s-1950s)'' \<noteq> str ''General Modernism''"
  by (simp_all add: str_def)

lemma field_ok_get:
  assumes "field_ok d k ok" and "ok dflt"
  shows "\<exists>v. py_get d k dflt = Inr v \<and> ok v"
  using assms by (auto simp: field_ok_def py_get_def split: json.splits option.splits)

lemma field_ok_get_any:
  assumes "field_ok d k ok"
  shows "\<exists>v. py_get d k dflt = Inr v"
  using assms by (auto simp: field_ok_def py_get_def split: json.splits option.splits)

lemma field_ok_dict: "field_ok d k ok \<Longrightarrow> \<exists>kvs. d = JDict kvs"
  by (auto simp: field_ok_def split: json.splits)

lemma is_str_lower: "is_str v \<Longrightarrow> \<exists>s. py_lower lower v = Inr s"
  by (auto simp: is_str_def py_lower_def split: json.splits)

lemma join_strs_total: "list_all is_str xs \<Longrightarrow> \<exists>s. join_strs sep xs = Inr s"
proof (induction sep xs rule: join_strs.induct)
  case (3 sep s x xs)
  then show ?case by auto
qed (simp_all add: is_str_def)

lemma is_str_list_join: "is_list_of is_str v \<Longrightarrow> \<exists>s. py_join sep v = Inr s"
  by (auto simp: is_list_of_def py_join_def py_iter_def join_strs_total split: json.splits)

lemma bibjson_typed_get:
  assumes "field_ok paper (str ''bibjson'') P"
    and "\<And>b. P b \<Longrightarrow> field_ok b k ok" and "field_ok (JDict []) k ok" and "ok dflt"
  shows "\<exists>v. bibjson_get paper k dflt = Inr v \<and> ok v"
proof -
  obtain kvs where d: "paper = JDict kvs" using assms(1) field_ok_dict by blast
  show ?thesis
  proof (cases "map_of kvs (str ''bibjson'')")
    case None
    then have "bibjson_get paper k dflt = py_get (JDict []) k dflt"
      by (simp add: bibjson_get_def py_get_def d)
    then show ?thesis using field_ok_get[OF assms(3,4)] by simp
  next
    case (Some b)
    then have "P b" using assms(1) by (simp add: field_ok_def d)
    moreover have "bibjson_get paper k dflt = py_get b k dflt"
      using Some by (simp add: bibjson_get_def py_get_def d)
    ultimately show ?thesis using field_ok_get[OF assms(2) assms(4)] by simp
  qed
qed

lemma bibjson_get_other:
  "bibjson_get paper k d = Inr v \<Longrightarrow> \<exists>v'. bibjson_get paper k' d' = Inr v'"
  by (auto simp: bibjson_get_def py_get_def bnd_def split: json.splits option.splits sum.splits)

lemma field_ok_empty [simp]: "field_ok (JDict []) k ok"
  by (simp add: field_ok_def)

lemma era_content_total:
  assumes "text_fields_typed paper"
  shows "\<exists>content. era_content lower paper = Inr content"
proof -
  note t = assms[unfolded text_fields_typed_def]
  obtain a where a: "bibjson_get paper (str ''abstract'') (JStr []) = Inr a" "is_str a"
    using bibjson_typed_get[OF t, of "str ''abstract''" is_str "JStr []"]
    by (auto simp: is_str_def)
  obtain k where k: "bibjson_get paper (str ''keywords'') (JList []) = Inr k" "is_list_of is_str k"
    using bibjson_typed_get[OF t, of "str ''keywords''" "is_list_of is_str" "JList []"]
    by (auto simp: is_list_of_def)
  obtain ti where ti: "bibjson_get paper (str ''title'') (JStr []) = Inr ti" "is_str ti"
    using bibjson_typed_get[OF t, of "str ''title''" is_str "JStr []"]
    by (auto simp: is_str_def)
  obtain y where y: "bibjson_get paper (str ''year'') (JStr []) = Inr y"
    using bibjson_get_other[OF a(1)] by blast
  obtain a' where a': "py_lower lower a = Inr a'" using is_str_lower[OF a(2)] by blast
  obtain k' where k': "py_join (str '' '') k = Inr k'" using is_str_list_join[OF k(2)] by blast
  obtain t' where t': "py_lower lower ti = Inr t'" using is_str_lower[OF ti(2)] by blast
  show ?thesis
    by (simp add: era_content_def a k ti y a' k' t')
qed

lemma py_get_dict: "\<exists>v. py_get (JDict kvs) k d = Inr v"
  by (cases "map_of kvs k") (simp_all add: py_get_def)

lemma map_raising_get_total:
  "list_all is_dict xs \<Longrightarrow> \<exists>ys. map_raising (\<lambda>x. py_get x k d) xs = Inr ys"
proof (induction xs)
  case Nil
  then show ?case by simp
next
  case (Cons x xs)
  then obtain ys where ys: "map_raising (\<lambda>x. py_get x k d) xs = Inr ys" by auto
  from Cons.prems obtain kvs where "x = JDict kvs"
    by (auto simp: is_dict_def split: json.splits)
  then obtain y where "py_get x k d = Inr y"
    using py_get_dict by blast
  then show ?case using ys by simp
qed

lemma first_doi_total:
  "list_all (has_key_if (str ''doi'') (str ''id'')) xs \<Longrightarrow> \<exists>v. first_doi xs = Inr v"
proof (induction xs)
  case Nil
  then show ?case by simp
next
  case (Cons x xs)
  then obtain v where v: "first_doi xs = Inr v" by auto
  from Cons.prems have hx: "has_key_if (str ''doi'') (str ''id'') x" by simp
  then obtain kvs where x: "x = JDict kvs"
    by (auto simp: has_key_if_def split: json.splits)
  show ?case
  proof (cases "map_of kvs (str ''type'') = Some (JStr (str ''doi''))")
    case True
    then obtain u where "map_of kvs (str ''id'') = Some u"
      using hx by (auto simp: has_key_if_def x split: option.splits)
    then show ?thesis using True by (simp add: x py_get_def py_getitem_def)
  next
    case False
    then show ?thesis using v by (auto simp: x py_get_def split: option.splits)
  qed
qed

lemma fulltext_urls_total:
  "list_all (has_key_if (str ''fulltext'') (str ''url'')) xs \<Longrightarrow> \<exists>v. fulltext_urls xs = Inr v"
proof (induction xs)
  case Nil
  then show ?case by simp
next
  case (Cons x xs)
  then obtain v where v: "fulltext_urls xs = Inr v" by auto
  from Cons.prems have hx: "has_key_if (str ''fulltext'') (str ''url'') x" by simp
  then obtain kvs where x: "x = JDict kvs"
    by (auto simp: has_key_if_def split: json.splits)
  show ?case
  proof (cases "map_of kvs (str ''type'') = Some (JStr (str ''fulltext''))")
    case True
    then obtain u where "map_of kvs (str ''url'') = Some u"
      using hx by (auto simp: has_key_if_def x split: option.splits)
    then show ?thesis using True v by (simp add: x py_get_def py_getitem_def)
  next
    case False
    then show ?thesis using v by (auto simp: x py_get_def split: option.splits)
  qed
qed

lemma list_field_iter:
  assumes "field_ok b k (is_list_of ok)"
  shows "\<exists>xs. bnd (py_get b k (JList [])) py_iter = Inr xs \<and> list_all ok xs"
proof -
  obtain v where v: "py_get b k (JList []) = Inr v" "is_list_of ok v"
    using field_ok_get[OF assms, of "JList []"] by (auto simp: is_list_of_def)
  then obtain xs where "v = JList xs" "list_all ok xs"
    by (auto simp: is_list_of_def split: json.splits)
  then show ?thesis using v by (simp add: py_iter_def)
qed

lemma field_ok_bibjson:
  assumes "field_ok paper (str ''bibjson'') P" and "P (JDict [])"
  shows "py_get paper (str ''bibjson'') (JDict []) = Inr (the_bibjson paper) \<and> P (the_bibjson paper)"
  using assms
  by (auto simp: field_ok_def py_get_def the_bibjson_def split: json.splits option.splits)

lemma typed_is_dict:
  assumes "text_fields_typed paper"
  shows "\<exists>kvs. paper = JDict kvs"
  using assms unfolding text_fields_typed_def by (rule field_ok_dict)

lemma typed_bibjson:
  assumes "text_fields_typed paper"
  shows "py_get paper (str ''bibjson'') (JDict []) = Inr (the_bibjson paper)"
    and "field_ok (the_bibjson paper) (str ''journal'') journal_typed"
proof -
  have "py_get paper (str ''bibjson'') (JDict []) = Inr (the_bibjson paper) \<and>
      (field_ok (the_bibjson paper) (str ''title'') is_str \<and>
       field_ok (the_bibjson paper) (str ''abstract'') is_str \<and>
       field_ok (the_bibjson paper) (str ''keywords'') (is_list_of is_str) \<and>
       field_ok (the_bibjson paper) (str ''journal'') journal_typed)"
    by (rule field_ok_bibjson[OF assms[unfolded text_fields_typed_def]]) simp
  then show "py_get paper (str ''bibjson'') (JDict []) = Inr (the_bibjson paper)"
    and "field_ok (the_bibjson paper) (str ''journal'') journal_typed"
    by simp_all
qed

lemma sequences_bibjson:
  assumes "sequence_fields_typed paper"
  shows "field_ok (the_bibjson paper) (str ''author'') (is_list_of is_dict)"
    and "field_ok (the_bibjson paper) (str ''identifier'') (is_list_of (has_key_if (str ''doi'') (str ''id'')))"
    and "field_ok (the_bibjson paper) (str ''link'') (is_list_of (has_key_if (str ''fulltext'') (str ''url'')))"
    and "field_ok (the_bibjson paper) (str ''subject'') (is_list_of is_dict)"
proof -
  have "py_get paper (str ''bibjson'') (JDict []) = Inr (the_bibjson paper) \<and>
      (field_ok (the_bibjson paper) (str ''author'') (is_list_of is_dict) \<and>
       field_ok (the_bibjson paper) (str ''identifier'') (is_list_of (has_key_if (str ''doi'') (str ''id''))) \<and>
       field_ok (the_bibjson paper) (str ''link'') (is_list_of (has_key_if (str ''fulltext'') (str ''url''))) \<and>
       field_ok (the_bibjson paper) (str ''subject'') (is_list_of is_dict))"
    by (rule field_ok_bibjson[OF assms[unfolded sequence_fields_typed_def]]) simp
  then show "field_ok (the_bibjson paper) (str ''author'') (is_list_of is_dict)"
    and "field_ok (the_bibjson paper) (str ''identifier'') (is_list_of (has_key_if (str ''doi'') (str ''id'')))"
    and "field_ok (the_bibjson paper) (str ''link'') (is_list_of (has_key_if (str ''fulltext'') (str ''url'')))"
    and "field_ok (the_bibjson paper) (str ''subject'') (is_list_of is_dict)"
    by simp_all
qed

lemma journal_fields:
  assumes "field_ok b (str ''journal'') journal_typed"
  shows "\<exists>j. py_get b (str ''journal'') (JDict []) = Inr j \<and> (\<exists>kvs. j = JDict kvs)"
proof -
  have "journal_typed (JDict [])" by (simp add: journal_typed_def)
  from field_ok_get[OF assms this]
  obtain j where j: "py_get b (str ''journal'') (JDict []) = Inr j" "journal_typed j"
    by (elim exE conjE)
  from j(2) have "field_ok j (str ''title'') is_str" by (simp add: journal_typed_def)
  then have "\<exists>kvs. j = JDict kvs" by (rule field_ok_dict)
  with j(1) show ?thesis by simp
qed

lemma extract_metadata_total:
  assumes "text_fields_typed paper" and "sequence_fields_typed paper"
  shows "\<exists>md. extract_metadata_for_analysis paper = Inr md"
proof -
  define b where "b = the_bibjson paper"
  have b: "py_get paper (str ''bibjson'') (JDict []) = Inr b"
    and tb: "field_ok b (str ''journal'') journal_typed"
    unfolding b_def by (rule typed_bibjson[OF assms(1)])+
  have sb: "field_ok b (str ''author'') (is_list_of is_dict)"
    "field_ok b (str ''identifier'') (is_list_of (has_key_if (str ''doi'') (str ''id'')))"
    "field_ok b (str ''link'') (is_list_of (has_key_if (str ''fulltext'') (str ''url'')))"
    "field_ok b (str ''subject'') (is_list_of is_dict)"
    unfolding b_def by (rule sequences_bibjson[OF assms(2)])+
  obtain pk where pk: "paper = JDict pk" using typed_is_dict[OF assms(1)] by (elim exE)
  obtain bk where bk: "b = JDict bk" using field_ok_dict[OF tb] by (elim exE)
  obtain j jk where j: "py_get b (str ''journal'') (JDict []) = Inr j" and jk: "j = JDict jk"
    using journal_fields[OF tb] by (elim exE conjE)
  obtain i where i: "py_get paper (str ''id'') JNull = Inr i"
    unfolding pk using py_get_dict[of pk "str ''id''" JNull] by (elim exE)
  obtain ti where ti: "py_get b (str ''title'') (JStr []) = Inr ti"
    unfolding bk using py_get_dict[of bk "str ''title''" "JStr []"] by (elim exE)
  obtain y where y: "py_get b (str ''year'') (JStr []) = Inr y"
    unfolding bk using py_get_dict[of bk "str ''year''" "JStr []"] by (elim exE)
  obtain kw where kw: "py_get b (str ''keywords'') (JList []) = Inr kw"
    unfolding bk using py_get_dict[of bk "str ''keywords''" "JList []"] by (elim exE)
  obtain ab where ab: "py_get b (str ''abstract'') (JStr []) = Inr ab"
    unfolding bk using py_get_dict[of bk "str ''abstract''" "JStr []"] by (elim exE)
  obtain jt where jt: "py_get j (str ''title'') (JStr []) = Inr jt"
    unfolding jk using py_get_dict[of jk "str ''title''" "JStr []"] by (elim exE)
  obtain jp where jp: "py_get j (str ''publisher'') (JStr []) = Inr jp"
    unfolding jk using py_get_dict[of jk "str ''publisher''" "JStr []"] by (elim exE)
  obtain jc where jc: "py_get j (str ''country'') (JStr []) = Inr jc"
    unfolding jk using py_get_dict[of jk "str ''country''" "JStr []"] by (elim exE)
  obtain as where as: "bnd (py_get b (str ''author'') (JList [])) py_iter = Inr as"
    and as2: "list_all is_dict as" using list_field_iter[OF sb(1)] by (elim exE conjE)
  obtain ids where ids: "bnd (py_get b (str ''identifier'') (JList [])) py_iter = Inr ids"
    and ids2: "list_all (has_key_if (str ''doi'') (str ''id'')) ids"
    using list_field_iter[OF sb(2)] by (elim exE conjE)
  obtain ls where ls: "bnd (py_get b (str ''link'') (JList [])) py_iter = Inr ls"
    and ls2: "list_all (has_key_if (str ''fulltext'') (str ''url'')) ls"
    using list_field_iter[OF sb(3)] by (elim exE conjE)
  obtain ss where ss: "bnd (py_get b (str ''subject'') (JList [])) py_iter = Inr ss"
    and ss2: "list_all is_dict ss" using list_field_iter[OF sb(4)] by (elim exE conjE)
  obtain as' where as': "map_raising (\<lambda>x. py_get x (str ''name'') (JStr [])) as = Inr as'"
    using map_raising_get_total[OF as2, of "str ''name''" "JStr []"] by (elim exE)
  obtain ss' where ss': "map_raising (\<lambda>x. py_get x (str ''term'') (JStr [])) ss = Inr ss'"
    using map_raising_get_total[OF ss2, of "str ''term''" "JStr []"] by (elim exE)
  obtain d where d: "first_doi ids = Inr d" using first_doi_total[OF ids2] by (elim exE)
  obtain us where us: "fulltext_urls ls = Inr us" using fulltext_urls_total[OF ls2] by (elim exE)
  show ?thesis
    unfolding extract_metadata_for_analysis_def
    by (simp only: b i ti y kw ab j jt jp jc as ids ls ss as' ss' d us bnd_Inr) (rule exI, rule refl)
qed

lemma era_of_counts_label: "era_of_counts c \<in> set era_labels"
  by (cases c) (simp add: era_of_counts_def era_labels_def)

lemma medium_of_content_label: "medium_of_content c \<in> set medium_labels"
  by (simp add: medium_of_content_def medium_labels_def)

lemma medium_content_total:
  assumes "text_fields_typed paper"
  shows "\<exists>content. medium_content lower paper = Inr content"
proof -
  note t = assms[unfolded text_fields_typed_def]
  obtain j where j: "bibjson_get paper (str ''journal'') (JDict []) = Inr j" "journal_typed j"
    using bibjson_typed_get[OF t, of "str ''journal''" journal_typed "JDict []"]
    by (auto simp: journal_typed_def)
  obtain jt where jt: "py_get j (str ''title'') (JStr []) = Inr jt" "is_str jt"
    using field_ok_get[of j "str ''title''" is_str "JStr []"] j(2)
    by (auto simp: journal_typed_def is_str_def)
  obtain pb where pb: "py_get j (str ''publisher'') (JStr []) = Inr pb" "is_str pb"
    using field_ok_get[of j "str ''publisher''" is_str "JStr []"] j(2)
    by (auto simp: journal_typed_def is_str_def)
  obtain jt' where jt': "py_lower lower jt = Inr jt'" using is_str_lower[OF jt(2)] by blast
  obtain pb' where pb': "py_lower lower pb = Inr pb'" using is_str_lower[OF pb(2)] by blast
  show ?thesis
    by (simp add: medium_content_def j jt pb jt' pb')
qed

subsection \<open>The era classifier\<close>

text \<open>
  C1. Strict majority: whenever \<open>categorize_by_era\<close> reaches its counts, it returns an
  era's label exactly when that era's count is greater than both other counts, and
  the catch-all label exactly when the greatest count is shared by two or three of
  the sets (all counts zero included).
\<close>

theorem era_strict_majority:
  assumes "era_content lower paper = Inr content"
    and "era_counts content = (e, h, l)"
  shows "(categorize_by_era lower paper = Inr (str ''Early Modernism (1890s-1910s)'')
            \<longleftrightarrow> h < e \<and> l < e)
       \<and> (categorize_by_era lower paper = Inr (str ''High Modernism (1910s-1920s)'')
            \<longleftrightarrow> e < h \<and> l < h)
       \<and> (categorize_by_era lower paper = Inr (str ''Late Modernism (1930s-1950s)'')
            \<longleftrightarrow> e < l \<and> h < l)
       \<and> (categorize_by_era lower paper = Inr (str ''General Modernism'')
            \<longleftrightarrow> (e = h \<and> l \<le> e) \<or> (e = l \<and> h \<le> e) \<or> (h = l \<and> e \<le> h))"
proof -
  have res: "categorize_by_era lower paper = Inr (era_of_counts (e, h, l))"
    using assms by (simp add: categorize_by_era_def)
  have neq: "str ''High Modernism (1910s-1920s)'' \<noteq> str ''Early Modernism (1890s-1910s)''"
    "str ''Late Modernism (1930s-1950s)'' \<noteq> str ''Early Modernism (1890s-1910s)''"
    "str ''General Modernism'' \<noteq> str ''Early Modernism (1890s-1910s)''"
    "str ''Late Modernism (1930s-1950s)'' \<noteq> str ''High Modernism (1910s-1920s)''"
    "str ''General Modernism'' \<noteq> str ''High Modernism (1910s-1920s)''"
    "str ''General Modernism'' \<noteq> str ''Late Modernism (1930s-1950s)''"
    using era_labels_distinct by (simp_all add: eq_commute)
  show ?thesis
    unfolding res era_of_counts_def
    using era_labels_distinct neq by (simp split: if_splits) linarith
qed

theorem era_strict_majority_witness:
  "era_content ascii_lower tie_paper = Inr (str ''wilde and pater read joyce and woolf  '')
   \<and> era_counts (str ''wilde and pater read joyce and woolf  '') = (2, 2, 0)
   \<and> categorize_by_era ascii_lower tie_paper = Inr (str ''General Modernism'')"
proof -
  have c: "era_content ascii_lower tie_paper = Inr (str ''wilde and pater read joyce and woolf  '')"
    by code_simp
  have n: "era_counts (str ''wilde and pater read joyce and woolf  '') = (2, 2, 0)"
    by code_simp
  from era_strict_majority[OF c n] show ?thesis using c n by simp
qed

subsection \<open>One label each\<close>

text \<open>
  C2, as stated, fails: not every record gets a label. The keywords and the journal
  title of \<open>null_keywords_paper\<close> are \<open>null\<close>; \<open>categorize_by_era\<close> raises
  \<open>TypeError\<close> and \<open>categorize_by_medium\<close> raises \<open>AttributeError\<close> on it, so it
  gets neither label.
\<close>

theorem no_label_for_ill_typed_text:
  "categorize_by_era ascii_lower null_keywords_paper = Inl TypeError
   \<and> categorize_by_medium ascii_lower null_keywords_paper = Inl AttributeError"
  by code_simp

text \<open>
  C2, amended. For every record whose text fields (title, abstract, keywords, journal
  with its title and publisher) are each absent or of their declared type,
  \<open>categorize_by_era\<close> returns one label of the four era labels as the code spells
  them (\<open>era_labels\<close>) and \<open>categorize_by_medium\<close> one of the three medium labels
  (\<open>medium_labels\<close>); the labels of each enumeration are pairwise different.
\<close>

theorem classify_one_label_each:
  assumes "text_fields_typed paper"
  shows "\<exists>era medium.
           categorize_by_era lower paper = Inr era \<and> era \<in> set era_labels \<and>
           categorize_by_medium lower paper = Inr medium \<and> medium \<in> set medium_labels \<and>
           distinct era_labels \<and> length era_labels = 4 \<and>
           distinct medium_labels \<and> length medium_labels = 3"
proof -
  have d: "distinct era_labels" "length era_labels = 4"
    "distinct medium_labels" "length medium_labels = 3"
    by (simp_all add: era_labels_def medium_labels_def str_def)
  obtain c where c: "era_content lower paper = Inr c"
    using era_content_total[OF assms] by blast
  obtain m where m: "medium_content lower paper = Inr m"
    using medium_content_total[OF assms] by blast
  show ?thesis
    by (simp add: categorize_by_era_def categorize_by_medium_def c m
        era_of_counts_label medium_of_content_label d)
qed

theorem classify_one_label_each_witness:
  "text_fields_typed tie_paper
   \<and> categorize_by_era ascii_lower tie_paper = Inr (str ''General Modernism'')
   \<and> categorize_by_medium ascii_lower tie_paper = Inr (str ''Other Publication'')"
proof -
  have t: "text_fields_typed tie_paper" by code_simp
  have e: "categorize_by_era ascii_lower tie_paper = Inr (str ''General Modernism'')" by code_simp
  have m: "categorize_by_medium ascii_lower tie_paper = Inr (str ''Other Publication'')" by code_simp
  from classify_one_label_each[OF t, of ascii_lower] show ?thesis using t e m by simp
qed

subsection \<open>The medium classifier\<close>

text \<open>
  C3. Whenever the text built from journal title and publisher holds an academic
  word, \<open>categorize_by_medium\<close> returns \<open>Academic Journal\<close>, whether or not a
  literary word occurs as well; \<open>Literary Magazine\<close> is returned only when no
  academic word occurs.
\<close>

theorem academic_precedence:
  assumes "medium_content lower paper = Inr content"
  shows "(list_ex (\<lambda>word. isin word content) academic_words \<longrightarrow>
            categorize_by_medium lower paper = Inr (str ''Academic Journal''))
       \<and> (categorize_by_medium lower paper = Inr (str ''Literary Magazine'') \<longrightarrow>
            \<not> list_ex (\<lambda>word. isin word content) academic_words \<and>
            list_ex (\<lambda>word. isin word content) literary_words)"
proof -
  have neq: "str ''Academic Journal'' \<noteq> str ''Literary Magazine''"
    "str ''Other Publication'' \<noteq> str ''Literary Magazine''"
    by (simp_all add: str_def)
  have res: "categorize_by_medium lower paper = Inr (medium_of_content content)"
    using assms by (simp add: categorize_by_medium_def)
  show ?thesis
    unfolding res medium_of_content_def using neq by simp
qed

theorem academic_precedence_witness:
  "medium_content ascii_lower poetry_review_paper = Inr (str ''poetry review arts council'')
   \<and> list_ex (\<lambda>word. isin word (str ''poetry review arts council'')) academic_words
   \<and> list_ex (\<lambda>word. isin word (str ''poetry review arts council'')) literary_words
   \<and> categorize_by_medium ascii_lower poetry_review_paper = Inr (str ''Academic Journal'')"
proof -
  have c: "medium_content ascii_lower poetry_review_paper = Inr (str ''poetry review arts council'')"
    by code_simp
  have a: "list_ex (\<lambda>word. isin word (str ''poetry review arts council'')) academic_words"
    by code_simp
  have l: "list_ex (\<lambda>word. isin word (str ''poetry review arts council'')) literary_words"
    by code_simp
  from academic_precedence[OF c] show ?thesis using c a l by simp
qed

subsection \<open>Absent and ill-typed fields\<close>

text \<open>
  C5, as stated, fails: a field that is present with a value of another type is not
  replaced by an empty value. The abstract of \<open>null_abstract_paper\<close> is \<open>null\<close>,
  and \<open>categorize_by_era\<close> raises \<open>AttributeError\<close> on it.
\<close>

theorem era_raises_on_null_abstract:
  "categorize_by_era ascii_lower null_abstract_paper = Inl AttributeError"
  by code_simp

lemma map_of_set_default:
  "map_of (set_default k v kvs) k' =
     (if k' = k \<and> map_of kvs k = None then Some v else map_of kvs k')"
  by (cases "map_of kvs k") (auto simp: set_default_def map_add_def split: option.splits)

lemma map_of_fill:
  assumes "\<And>v. (k, v) \<in> set defaults \<Longrightarrow> v = d"
  shows "map_of (fill defaults kvs) k =
     (if map_of kvs k = None \<and> k \<in> fst ` set defaults then Some d else map_of kvs k)"
  using assms
proof (induction defaults arbitrary: kvs)
  case Nil
  then show ?case by (simp add: fill_def)
next
  case (Cons kv defaults)
  obtain k0 v0 where kv: "kv = (k0, v0)" by (cases kv)
  have step: "fill (kv # defaults) kvs = fill defaults (set_default k0 v0 kvs)"
    by (simp add: fill_def kv)
  have ih: "map_of (fill defaults (set_default k0 v0 kvs)) k =
     (if map_of (set_default k0 v0 kvs) k = None \<and> k \<in> fst ` set defaults then Some d
      else map_of (set_default k0 v0 kvs) k)"
    by (rule Cons.IH) (simp add: Cons.prems)
  have v0: "k = k0 \<Longrightarrow> v0 = d" using Cons.prems[of v0] by (simp add: kv)
  show ?case
    unfolding step ih map_of_set_default using v0 by (auto simp: kv)
qed

lemma map_of_on_key:
  "map_of (on_key k f kvs) k' =
     (if k' = k then map_option f (map_of kvs k) else map_of kvs k')"
  by (induction kvs) (auto simp: on_key_def)

lemma py_get_fill:
  assumes "\<And>v. (k, v) \<in> set defaults \<Longrightarrow> v = d"
  shows "py_get (JDict (fill defaults kvs)) k d = py_get (JDict kvs) k d"
proof -
  have m: "map_of (fill defaults kvs) k =
     (if map_of kvs k = None \<and> k \<in> fst ` set defaults then Some d else map_of kvs k)"
    by (rule map_of_fill) (rule assms)
  show ?thesis by (simp add: py_get_def m split: option.splits)
qed

lemma py_get_on_key_other:
  "k' \<noteq> k \<Longrightarrow> py_get (JDict (on_key k f kvs)) k' d = py_get (JDict kvs) k' d"
  by (simp add: py_get_def map_of_on_key)

lemma py_get_on_key_same:
  "map_of kvs k = Some u \<Longrightarrow> py_get (JDict (on_key k f kvs)) k d = Inr (f u)"
  by (simp add: py_get_def map_of_on_key)

lemma fill_journal_get:
  assumes "\<And>v. (k, v) \<in> set journal_defaults \<Longrightarrow> v = d"
  shows "py_get (fill_journal j) k d = py_get j k d"
proof (cases j)
  case (JDict kvs)
  then show ?thesis using py_get_fill[of k journal_defaults d kvs, OF assms]
    by (simp add: fill_journal_def)
qed (simp_all add: fill_journal_def)

lemma fill_bibjson_get:
  assumes "\<And>v. (k, v) \<in> set bibjson_defaults \<Longrightarrow> v = d" and "k \<noteq> str ''journal''"
  shows "py_get (fill_bibjson b) k d = py_get b k d"
proof (cases b)
  case (JDict kvs)
  then show ?thesis
    using py_get_fill[of k bibjson_defaults d kvs, OF assms(1)] assms(2)
    by (simp add: fill_bibjson_def py_get_on_key_other)
qed (simp_all add: fill_bibjson_def)

lemma fill_bibjson_journal:
  "py_get (fill_bibjson b) (str ''journal'') (JDict []) =
     bnd (py_get b (str ''journal'') (JDict [])) (\<lambda>j. Inr (fill_journal j))"
proof (cases b)
  case (JDict kvs)
  have m: "map_of (fill bibjson_defaults kvs) (str ''journal'') =
     (if map_of kvs (str ''journal'') = None \<and> str ''journal'' \<in> fst ` set bibjson_defaults
      then Some (JDict []) else map_of kvs (str ''journal''))"
    by (rule map_of_fill) (simp add: bibjson_defaults_def str_def)
  have i: "str ''journal'' \<in> fst ` set bibjson_defaults"
    by (simp add: bibjson_defaults_def)
  show ?thesis
    by (simp add: JDict fill_bibjson_def py_get_def map_of_on_key m i split: option.splits)
qed (simp_all add: fill_bibjson_def py_get_def)

lemma with_empty_fields_bibjson:
  "py_get (with_empty_fields paper) (str ''bibjson'') (JDict []) =
     bnd (py_get paper (str ''bibjson'') (JDict [])) (\<lambda>b. Inr (fill_bibjson b))"
proof (cases paper)
  case (JDict kvs)
  have m: "map_of (fill paper_defaults kvs) (str ''bibjson'') =
     (if map_of kvs (str ''bibjson'') = None \<and> str ''bibjson'' \<in> fst ` set paper_defaults
      then Some (JDict []) else map_of kvs (str ''bibjson''))"
    by (rule map_of_fill) (simp add: paper_defaults_def str_def)
  have i: "str ''bibjson'' \<in> fst ` set paper_defaults"
    by (simp add: paper_defaults_def)
  show ?thesis
    by (simp add: JDict with_empty_fields_def py_get_def map_of_on_key m i split: option.splits)
qed (simp_all add: with_empty_fields_def py_get_def)

lemma with_empty_fields_id:
  "py_get (with_empty_fields paper) (str ''id'') JNull = py_get paper (str ''id'') JNull"
proof (cases paper)
  case (JDict kvs)
  have ne: "str ''id'' \<noteq> str ''bibjson''" by (simp add: str_def)
  have "py_get (JDict (fill paper_defaults kvs)) (str ''id'') JNull
      = py_get (JDict kvs) (str ''id'') JNull"
    by (rule py_get_fill) (simp add: paper_defaults_def str_def)
  then show ?thesis
    by (simp add: JDict with_empty_fields_def py_get_on_key_other[OF ne])
qed (simp_all add: with_empty_fields_def)

lemma with_empty_fields_bibjson_get:
  assumes "\<And>v. (k, v) \<in> set bibjson_defaults \<Longrightarrow> v = d" and "k \<noteq> str ''journal''"
  shows "bibjson_get (with_empty_fields paper) k d = bibjson_get paper k d"
  unfolding bibjson_get_def with_empty_fields_bibjson
  by (cases "py_get paper (str ''bibjson'') (JDict [])")
     (simp_all add: fill_bibjson_get[OF assms])

lemma with_empty_fields_journal:
  "bibjson_get (with_empty_fields paper) (str ''journal'') (JDict []) =
     bnd (bibjson_get paper (str ''journal'') (JDict [])) (\<lambda>j. Inr (fill_journal j))"
  unfolding bibjson_get_def with_empty_fields_bibjson
  by (cases "py_get paper (str ''bibjson'') (JDict [])")
     (simp_all add: fill_bibjson_journal)

lemma era_content_with_empty_fields:
  "era_content lower (with_empty_fields paper) = era_content lower paper"
proof -
  have a: "bibjson_get (with_empty_fields paper) (str ''abstract'') (JStr [])
         = bibjson_get paper (str ''abstract'') (JStr [])"
    by (rule with_empty_fields_bibjson_get) (simp_all add: bibjson_defaults_def str_def)
  have k: "bibjson_get (with_empty_fields paper) (str ''keywords'') (JList [])
         = bibjson_get paper (str ''keywords'') (JList [])"
    by (rule with_empty_fields_bibjson_get) (simp_all add: bibjson_defaults_def str_def)
  have t: "bibjson_get (with_empty_fields paper) (str ''title'') (JStr [])
         = bibjson_get paper (str ''title'') (JStr [])"
    by (rule with_empty_fields_bibjson_get) (simp_all add: bibjson_defaults_def str_def)
  have y: "bibjson_get (with_empty_fields paper) (str ''year'') (JStr [])
         = bibjson_get paper (str ''year'') (JStr [])"
    by (rule with_empty_fields_bibjson_get) (simp_all add: bibjson_defaults_def str_def)
  show ?thesis unfolding era_content_def a k t y by (rule refl)
qed

lemma medium_content_with_empty_fields:
  "medium_content lower (with_empty_fields paper) = medium_content lower paper"
proof -
  have t: "py_get (fill_journal j) (str ''title'') (JStr []) = py_get j (str ''title'') (JStr [])"
    for j by (rule fill_journal_get) (simp add: journal_defaults_def str_def)
  have p: "py_get (fill_journal j) (str ''publisher'') (JStr [])
         = py_get j (str ''publisher'') (JStr [])"
    for j by (rule fill_journal_get) (simp add: journal_defaults_def str_def)
  show ?thesis
    unfolding medium_content_def with_empty_fields_journal
    by (cases "bibjson_get paper (str ''journal'') (JDict [])") (simp_all add: t p)
qed

lemma extract_metadata_with_empty_fields:
  "extract_metadata_for_analysis (with_empty_fields paper) = extract_metadata_for_analysis paper"
proof (cases "py_get paper (str ''bibjson'') (JDict [])")
  case (Inl e)
  then show ?thesis
    by (simp add: extract_metadata_for_analysis_def with_empty_fields_bibjson)
next
  case (Inr b)
  have g: "py_get (fill_bibjson b) (str ''title'') (JStr []) = py_get b (str ''title'') (JStr [])"
    "py_get (fill_bibjson b) (str ''author'') (JList []) = py_get b (str ''author'') (JList [])"
    "py_get (fill_bibjson b) (str ''year'') (JStr []) = py_get b (str ''year'') (JStr [])"
    "py_get (fill_bibjson b) (str ''keywords'') (JList []) = py_get b (str ''keywords'') (JList [])"
    "py_get (fill_bibjson b) (str ''abstract'') (JStr []) = py_get b (str ''abstract'') (JStr [])"
    "py_get (fill_bibjson b) (str ''identifier'') (JList [])
       = py_get b (str ''identifier'') (JList [])"
    "py_get (fill_bibjson b) (str ''link'') (JList []) = py_get b (str ''link'') (JList [])"
    "py_get (fill_bibjson b) (str ''subject'') (JList []) = py_get b (str ''subject'') (JList [])"
    by (rule fill_bibjson_get; simp add: bibjson_defaults_def str_def)+
  have j: "bnd (py_get (fill_bibjson b) (str ''journal'') (JDict [])) (\<lambda>j. py_get j k (JStr []))
         = bnd (py_get b (str ''journal'') (JDict [])) (\<lambda>j. py_get j k (JStr []))"
    if "\<And>v. (k, v) \<in> set journal_defaults \<Longrightarrow> v = JStr []" for k
    unfolding fill_bibjson_journal
    by (cases "py_get b (str ''journal'') (JDict [])")
       (simp_all add: fill_journal_get[of k "JStr []", OF that])
  have jt: "bnd (py_get (fill_bibjson b) (str ''journal'') (JDict []))
              (\<lambda>j. py_get j (str ''title'') (JStr []))
         = bnd (py_get b (str ''journal'') (JDict [])) (\<lambda>j. py_get j (str ''title'') (JStr []))"
    by (rule j) (simp add: journal_defaults_def str_def)
  have jp: "bnd (py_get (fill_bibjson b) (str ''journal'') (JDict []))
              (\<lambda>j. py_get j (str ''publisher'') (JStr []))
         = bnd (py_get b (str ''journal'') (JDict [])) (\<lambda>j. py_get j (str ''publisher'') (JStr []))"
    by (rule j) (simp add: journal_defaults_def str_def)
  have jc: "bnd (py_get (fill_bibjson b) (str ''journal'') (JDict []))
              (\<lambda>j. py_get j (str ''country'') (JStr []))
         = bnd (py_get b (str ''journal'') (JDict [])) (\<lambda>j. py_get j (str ''country'') (JStr []))"
    by (rule j) (simp add: journal_defaults_def str_def)
  show ?thesis
    unfolding extract_metadata_for_analysis_def with_empty_fields_bibjson with_empty_fields_id Inr
      bnd_Inr g jt jp jc
    by (rule refl)
qed

text \<open>
  C5, amended. For every record whose fields are each absent or of their declared
  type (text fields strings, keywords a list of strings, journal a dictionary, the
  four sequences lists of dictionaries in which an identifier of type \<open>doi\<close> has
  an \<open>id\<close> and a link of type \<open>fulltext\<close> a \<open>url\<close>), neither classifier nor
  \<open>extract_metadata_for_analysis\<close> raises, and an absent field is read as its empty
  value: each of the three returns what it returns on the record in which every
  absent field has been put in with the empty string, the empty list, the empty
  dictionary (journal, bibjson) or \<open>None\<close> (id).
\<close>

theorem typed_record_never_raises:
  assumes "text_fields_typed paper" and "sequence_fields_typed paper"
  shows "\<exists>era medium md.
           categorize_by_era lower paper = Inr era \<and>
           categorize_by_medium lower paper = Inr medium \<and>
           extract_metadata_for_analysis paper = Inr md \<and>
           categorize_by_era lower (with_empty_fields paper) = Inr era \<and>
           categorize_by_medium lower (with_empty_fields paper) = Inr medium \<and>
           extract_metadata_for_analysis (with_empty_fields paper) = Inr md"
proof -
  obtain c where c: "era_content lower paper = Inr c"
    using era_content_total[OF assms(1), of lower] by (elim exE)
  obtain m where m: "medium_content lower paper = Inr m"
    using medium_content_total[OF assms(1), of lower] by (elim exE)
  obtain md where md: "extract_metadata_for_analysis paper = Inr md"
    using extract_metadata_total[OF assms] by (elim exE)
  show ?thesis
    by (simp add: categorize_by_era_def categorize_by_medium_def c m md
        era_content_with_empty_fields medium_content_with_empty_fields
        extract_metadata_with_empty_fields)
qed

theorem typed_record_never_raises_witness:
  "text_fields_typed partial_paper \<and> sequence_fields_typed partial_paper
   \<and> categorize_by_era ascii_lower partial_paper = Inr (str ''Late Modernism (1930s-1950s)'')
   \<and> categorize_by_medium ascii_lower partial_paper = Inr (str ''Academic Journal'')
   \<and> extract_metadata_for_analysis partial_paper =
       Inr \<lparr>m_id = JStr (str ''a6''), m_title = JStr (str ''Auden in the Thirties''),
            m_authors = [JStr (str ''B. Writer''), JStr []], m_year = JStr [],
            m_journal = JStr (str ''Critical Quarterly''), m_publisher = JStr [],
            m_country = JStr [],
            m_keywords = JList [JStr (str ''Spender''), JStr (str ''poetry'')],
            m_abstract = JStr [], m_doi = JStr (str ''10.3/x''),
            m_full_text_links = [JStr (str ''http://x.org/1'')], m_subjects = []\<rparr>
   \<and> with_empty_fields partial_paper =
     JDict [(str ''id'', JStr (str ''a6'')),
            (str ''bibjson'',
       JDict [(str ''title'', JStr (str ''Auden in the Thirties'')),
              (str ''keywords'', JList [JStr (str ''Spender''), JStr (str ''poetry'')]),
              (str ''journal'',
                 JDict [(str ''title'', JStr (str ''Critical Quarterly'')),
                        (str ''publisher'', JStr []), (str ''country'', JStr [])]),
              (str ''author'', JList [JDict [(str ''name'', JStr (str ''B. Writer''))], JDict []]),
              (str ''identifier'',
                 JList [JDict [(str ''type'', JStr (str ''doi'')), (str ''id'', JStr (str ''10.3/x''))]]),
              (str ''link'',
                 JList [JDict [(str ''type'', JStr (str ''homepage''))],
                        JDict [(str ''type'', JStr (str ''fulltext'')),
                               (str ''url'', JStr (str ''http://x.org/1''))]]),
              (str ''year'', JStr []), (str ''abstract'', JStr []),
              (str ''subject'', JList [])])]
   \<and> categorize_by_era ascii_lower (with_empty_fields partial_paper)
       = Inr (str ''Late Modernism (1930s-1950s)'')
   \<and> categorize_by_medium ascii_lower (with_empty_fields partial_paper)
       = Inr (str ''Academic Journal'')
   \<and> extract_metadata_for_analysis (with_empty_fields partial_paper)
       = extract_metadata_for_analysis partial_paper"
proof -
  have t: "text_fields_typed partial_paper" by code_simp
  have s: "sequence_fields_typed partial_paper" by code_simp
  have e: "categorize_by_era ascii_lower partial_paper = Inr (str ''Late Modernism (1930s-1950s)'')"
    by code_simp
  have m: "categorize_by_medium ascii_lower partial_paper = Inr (str ''Academic Journal'')"
    by code_simp
  have x: "extract_metadata_for_analysis partial_paper =
       Inr \<lparr>m_id = JStr (str ''a6''), m_title = JStr (str ''Auden in the Thirties''),
            m_authors = [JStr (str ''B. Writer''), JStr []], m_year = JStr [],
            m_journal = JStr (str ''Critical Quarterly''), m_publisher = JStr [],
            m_country = JStr [],
            m_keywords = JList [JStr (str ''Spender''), JStr (str ''poetry'')],
            m_abstract = JStr [], m_doi = JStr (str ''10.3/x''),
            m_full_text_links = [JStr (str ''http://x.org/1'')], m_subjects = []\<rparr>"
    by code_simp
  have w: "with_empty_fields partial_paper =
     JDict [(str ''id'', JStr (str ''a6'')),
            (str ''bibjson'',
       JDict [(str ''title'', JStr (str ''Auden in the Thirties'')),
              (str ''keywords'', JList [JStr (str ''Spender''), JStr (str ''poetry'')]),
              (str ''journal'',
                 JDict [(str ''title'', JStr (str ''Critical Quarterly'')),
                        (str ''publisher'', JStr []), (str ''country'', JStr [])]),
              (str ''author'', JList [JDict [(str ''name'', JStr (str ''B. Writer''))], JDict []]),
              (str ''identifier'',
                 JList [JDict [(str ''type'', JStr (str ''doi'')), (str ''id'', JStr (str ''10.3/x''))]]),
              (str ''link'',
                 JList [JDict [(str ''type'', JStr (str ''homepage''))],
                        JDict [(str ''type'', JStr (str ''fulltext'')),
                               (str ''url'', JStr (str ''http://x.org/1''))]]),
              (str ''year'', JStr []), (str ''abstract'', JStr []),
              (str ''subject'', JList [])])]"
    by code_simp
  from typed_record_never_raises[OF t s, of ascii_lower]
  obtain era medium md where r:
    "categorize_by_era ascii_lower partial_paper = Inr era"
    "categorize_by_medium ascii_lower partial_paper = Inr medium"
    "extract_metadata_for_analysis partial_paper = Inr md"
    "categorize_by_era ascii_lower (with_empty_fields partial_paper) = Inr era"
    "categorize_by_medium ascii_lower (with_empty_fields partial_paper) = Inr medium"
    "extract_metadata_for_analysis (with_empty_fields partial_paper) = Inr md"
    by (elim exE conjE)
  have e': "categorize_by_era ascii_lower (with_empty_fields partial_paper)
       = Inr (str ''Late Modernism (1930s-1950s)'')" using r(1,4) e by simp
  have m': "categorize_by_medium ascii_lower (with_empty_fields partial_paper)
       = Inr (str ''Academic Journal'')" using r(2,5) m by simp
  have x': "extract_metadata_for_analysis (with_empty_fields partial_paper)
       = extract_metadata_for_analysis partial_paper" using r(3,6) by simp
  show ?thesis
    by (intro conjI t s e m x w e' m' x')
qed

subsection \<open>Single records\<close>

text \<open>
  C8. The record whose fields are all present and empty is classified as
  \<open>General Modernism\<close> and \<open>Other Publication\<close>, and so is the record with no
  field at all.
\<close>

theorem empty_record_catch_all:
  "categorize_by_era ascii_lower empty_record = Inr (str ''General Modernism'')
   \<and> categorize_by_medium ascii_lower empty_record = Inr (str ''Other Publication'')
   \<and> categorize_by_era ascii_lower (JDict []) = Inr (str ''General Modernism'')
   \<and> categorize_by_medium ascii_lower (JDict []) = Inr (str ''Other Publication'')"
  by code_simp

text \<open>
  C9. The searched text joins title and abstract with one space, so an indicator with
  a space in it can match across the two fields: neither the title \<open>Notes on Waste\<close>
  nor the abstract \<open>Land reform in rural Ireland\<close> holds \<open>waste land\<close>, yet the
  text built from them does, it is the only high indicator found, and the record is
  classified as High Modernism.
\<close>

theorem waste_land_across_fields:
  "bibjson_get waste_land_paper (str ''title'') (JStr []) = Inr (JStr (str ''Notes on Waste''))
   \<and> bibjson_get waste_land_paper (str ''abstract'') (JStr [])
       = Inr (JStr (str ''Land reform in rural Ireland''))
   \<and> \<not> isin (str ''waste land'') (ascii_lower (str ''Notes on Waste''))
   \<and> \<not> isin (str ''waste land'') (ascii_lower (str ''Land reform in rural Ireland''))
   \<and> era_content ascii_lower waste_land_paper
       = Inr (str ''notes on waste land reform in rural ireland '')
   \<and> filter (\<lambda>indicator. isin indicator (str ''notes on waste land reform in rural ireland ''))
        high_indicators = [str ''waste land'']
   \<and> era_counts (str ''notes on waste land reform in rural ireland '') = (0, 1, 0)
   \<and> categorize_by_era ascii_lower waste_land_paper = Inr (str ''High Modernism (1910s-1920s)'')"
  by code_simp

subsection \<open>The doi field\<close>

lemma first_doi_spec: "first_doi idents = Inr v \<Longrightarrow> spec_doi idents = Inr v"
proof (induction idents)
  case Nil
  then show ?case by (simp add: spec_doi_def)
next
  case (Cons ident idents)
  from Cons.prems obtain t where t: "py_get ident (str ''type'') JNull = Inr t"
    by (cases "py_get ident (str ''type'') JNull") simp_all
  show ?case
  proof (cases "t = JStr (str ''doi'')")
    case True
    then show ?thesis using Cons.prems t by (simp add: spec_doi_def entry_is_doi_def)
  next
    case False
    then have "first_doi idents = Inr v" using Cons.prems t by simp
    then have "spec_doi idents = Inr v" by (rule Cons.IH)
    then show ?thesis using False t by (simp add: spec_doi_def entry_is_doi_def)
  qed
qed

lemma bnd_InrE:
  assumes "bnd m f = Inr y"
  obtains x where "m = Inr x" and "f x = Inr y"
  using assms by (cases m) simp_all

text \<open>
  C10. Whenever \<open>extract_metadata_for_analysis\<close> returns, its \<open>doi\<close> field is the
  \<open>'id'\<close> of the first identifier entry whose \<open>'type'\<close> is exactly \<open>'doi'\<close>, and
  \<open>None\<close> when no entry has that type; entries of any other type are passed over.
\<close>

theorem doi_is_first_doi_entry:
  assumes "extract_metadata_for_analysis paper = Inr md"
  shows "\<exists>idents. bnd (bibjson_get paper (str ''identifier'') (JList [])) py_iter = Inr idents
           \<and> spec_doi idents = Inr (m_doi md)"
proof -
  from assms obtain b where b: "py_get paper (str ''bibjson'') (JDict []) = Inr b"
    unfolding extract_metadata_for_analysis_def by (elim bnd_InrE)
  from assms[unfolded extract_metadata_for_analysis_def b bnd_Inr]
  obtain d where d: "bnd (bnd (py_get b (str ''identifier'') (JList [])) py_iter) first_doi = Inr d"
    and md: "m_doi md = d"
    by (elim bnd_InrE) auto
  from d obtain idents where i: "bnd (py_get b (str ''identifier'') (JList [])) py_iter = Inr idents"
    and f: "first_doi idents = Inr d"
    by (cases "bnd (py_get b (str ''identifier'') (JList [])) py_iter") simp_all
  have "bnd (bibjson_get paper (str ''identifier'') (JList [])) py_iter = Inr idents"
    using i by (simp add: bibjson_get_def b)
  moreover have "spec_doi idents = Inr (m_doi md)"
    using first_doi_spec[OF f] md by simp
  ultimately show ?thesis by blast
qed

theorem doi_is_first_doi_entry_witness:
  "extract_metadata_for_analysis doi_paper =
     Inr \<lparr>m_id = JStr (str ''a3''), m_title = JStr [], m_authors = [], m_year = JStr [],
          m_journal = JStr [], m_publisher = JStr [], m_country = JStr [],
          m_keywords = JList [], m_abstract = JStr [], m_doi = JStr (str ''10.1/first''),
          m_full_text_links = [], m_subjects = []\<rparr>
   \<and> (\<exists>idents. bnd (bibjson_get doi_paper (str ''identifier'') (JList [])) py_iter = Inr idents
           \<and> spec_doi idents = Inr (JStr (str ''10.1/first'')))"
proof -
  have x: "extract_metadata_for_analysis doi_paper =
     Inr \<lparr>m_id = JStr (str ''a3''), m_title = JStr [], m_authors = [], m_year = JStr [],
          m_journal = JStr [], m_publisher = JStr [], m_country = JStr [],
          m_keywords = JList [], m_abstract = JStr [], m_doi = JStr (str ''10.1/first''),
          m_full_text_links = [], m_subjects = []\<rparr>"
    by code_simp
  from doi_is_first_doi_entry[OF x] show ?thesis using x by simp
qed

subsection \<open>What the labels depend on\<close>

lemma era_content_without_year:
  "era_content lower paper =
     bnd (bnd (bibjson_get paper (str ''abstract'') (JStr [])) (py_lower lower)) (\<lambda>abstract.
     bnd (bnd (bnd (bibjson_get paper (str ''keywords'') (JList [])) (py_join (str '' '')))
            (\<lambda>joined. Inr (lower joined))) (\<lambda>keywords.
     bnd (bnd (bibjson_get paper (str ''title'') (JStr [])) (py_lower lower)) (\<lambda>title.
     Inr (lower (title @ str '' '' @ abstract @ str '' '' @ keywords)))))"
proof (cases "bibjson_get paper (str ''abstract'') (JStr [])")
  case (Inl e)
  then show ?thesis by (simp add: era_content_def)
next
  case (Inr a)
  from bibjson_get_other[OF Inr, of "str ''year''" "JStr []"]
  obtain y where y: "bibjson_get paper (str ''year'') (JStr []) = Inr y" by (elim exE)
  show ?thesis by (simp add: era_content_def y)
qed

lemma medium_content_journal_get:
  "medium_content lower paper =
     bnd (bnd (journal_get paper (str ''title'') (JStr [])) (py_lower lower)) (\<lambda>journal_title.
     bnd (bnd (journal_get paper (str ''publisher'') (JStr [])) (py_lower lower)) (\<lambda>publisher.
     Inr (journal_title @ str '' '' @ publisher)))"
  by (cases "bibjson_get paper (str ''journal'') (JDict [])")
     (simp_all add: medium_content_def journal_get_def)

text \<open>
  C6. The classifiers are functions of the record, so two calls on one record give
  the same labels; and of the record they read the text fields only: two records
  that agree on title, abstract and keywords get the same era label, and two that
  agree on journal title and publisher the same medium label, whatever else differs.
\<close>

theorem labels_depend_on_text_fields_only:
  assumes "bibjson_get p (str ''title'') (JStr []) = bibjson_get q (str ''title'') (JStr [])"
    and "bibjson_get p (str ''abstract'') (JStr []) = bibjson_get q (str ''abstract'') (JStr [])"
    and "bibjson_get p (str ''keywords'') (JList []) = bibjson_get q (str ''keywords'') (JList [])"
    and "journal_get p (str ''title'') (JStr []) = journal_get q (str ''title'') (JStr [])"
    and "journal_get p (str ''publisher'') (JStr []) = journal_get q (str ''publisher'') (JStr [])"
  shows "categorize_by_era lower p = categorize_by_era lower q
       \<and> categorize_by_medium lower p = categorize_by_medium lower q"
proof -
  have "era_content lower p = era_content lower q"
    unfolding era_content_without_year assms(1,2,3) by (rule refl)
  moreover have "medium_content lower p = medium_content lower q"
    unfolding medium_content_journal_get assms(4,5) by (rule refl)
  ultimately show ?thesis
    by (simp add: categorize_by_era_def categorize_by_medium_def)
qed

theorem labels_depend_on_text_fields_only_witness:
  "eliot_paper_a \<noteq> eliot_paper_b
   \<and> categorize_by_era ascii_lower eliot_paper_a = Inr (str ''High Modernism (1910s-1920s)'')
   \<and> categorize_by_era ascii_lower eliot_paper_b = Inr (str ''High Modernism (1910s-1920s)'')
   \<and> categorize_by_medium ascii_lower eliot_paper_a = Inr (str ''Academic Journal'')
   \<and> categorize_by_medium ascii_lower eliot_paper_b = Inr (str ''Academic Journal'')"
proof -
  have h1: "bibjson_get eliot_paper_a (str ''title'') (JStr [])
          = bibjson_get eliot_paper_b (str ''title'') (JStr [])" by code_simp
  have h2: "bibjson_get eliot_paper_a (str ''abstract'') (JStr [])
          = bibjson_get eliot_paper_b (str ''abstract'') (JStr [])" by code_simp
  have h3: "bibjson_get eliot_paper_a (str ''keywords'') (JList [])
          = bibjson_get eliot_paper_b (str ''keywords'') (JList [])" by code_simp
  have h4: "journal_get eliot_paper_a (str ''title'') (JStr [])
          = journal_get eliot_paper_b (str ''title'') (JStr [])" by code_simp
  have h5: "journal_get eliot_paper_a (str ''publisher'') (JStr [])
          = journal_get eliot_paper_b (str ''publisher'') (JStr [])" by code_simp
  have ne: "eliot_paper_a \<noteq> eliot_paper_b"
    by (simp add: eliot_paper_a_def eliot_paper_b_def str_def)
  have e: "categorize_by_era ascii_lower eliot_paper_a = Inr (str ''High Modernism (1910s-1920s)'')"
    by code_simp
  have m: "categorize_by_medium ascii_lower eliot_paper_a = Inr (str ''Academic Journal'')"
    by code_simp
  from labels_depend_on_text_fields_only[OF h1 h2 h3 h4 h5, of ascii_lower]
  show ?thesis using ne e m by simp
qed

subsection \<open>The buckets\<close>

lemma truncate_extend [simp]:
  "metadata.truncate (metadata.extend md (classified.fields e m)) = md"
  by (simp add: metadata.truncate_def metadata.extend_def classified.fields_def)

lemma era_extend [simp]: "m_era (metadata.extend md (classified.fields e m)) = e"
  by (simp add: metadata.extend_def classified.fields_def)

lemma medium_extend [simp]: "m_medium (metadata.extend md (classified.fields e m)) = m"
  by (simp add: metadata.extend_def classified.fields_def)

lemma keys_append_bucket:
  "set (map fst (append_bucket k v cats)) = insert k (set (map fst cats))"
proof (induction cats)
  case Nil
  then show ?case by simp
next
  case (Cons c cats)
  obtain k' vs where c: "c = (k', vs)" by (cases c)
  show ?case
  proof (cases "k' = k")
    case True
    then show ?thesis by (simp add: c insert_absorb)
  next
    case False
    then show ?thesis using Cons.IH by (simp add: c insert_commute)
  qed
qed

lemma distinct_append_bucket:
  "distinct (map fst cats) \<Longrightarrow> distinct (map fst (append_bucket k v cats))"
proof (induction cats)
  case Nil
  then show ?case by simp
next
  case (Cons c cats)
  obtain k' vs where c: "c = (k', vs)" by (cases c)
  show ?case
  proof (cases "k' = k")
    case True
    then show ?thesis using Cons.prems by (simp add: c)
  next
    case False
    have "k' \<notin> set (map fst (append_bucket k v cats))"
      using Cons.prems False unfolding keys_append_bucket by (simp add: c)
    then show ?thesis using Cons False by (simp add: c)
  qed
qed

lemma bucket_append_bucket:
  "bucket (append_bucket k v cats) label =
     (if label = k then bucket cats k @ [v] else bucket cats label)"
  by (induction cats) (auto simp: bucket_def)

lemma mset_append_bucket:
  "mset (concat (map snd (append_bucket k v cats))) = add_mset v (mset (concat (map snd cats)))"
  by (induction cats) auto

lemma process_paper_classify:
  "process_paper lower paper st =
     bnd (classify_record lower paper) (\<lambda>c.
       Inr \<lparr>era_categories = append_bucket (m_era c) (metadata.truncate c) (era_categories st),
            medium_categories =
              append_bucket (m_medium c) (metadata.truncate c) (medium_categories st),
            all_metadata = all_metadata st @ [c]\<rparr>)"
proof (cases "categorize_by_era lower paper")
  case (Inl e)
  then show ?thesis by (simp add: process_paper_def classify_record_def)
next
  case era: (Inr era)
  show ?thesis
  proof (cases "categorize_by_medium lower paper")
    case (Inl e)
    then show ?thesis by (simp add: process_paper_def classify_record_def era)
  next
    case medium: (Inr medium)
    show ?thesis
      by (cases "extract_metadata_for_analysis paper")
         (simp_all add: process_paper_def classify_record_def era medium)
  qed
qed

lemma partitioned_step:
  assumes "partitioned st"
  shows "partitioned
     \<lparr>era_categories = append_bucket (m_era c) (metadata.truncate c) (era_categories st),
      medium_categories = append_bucket (m_medium c) (metadata.truncate c) (medium_categories st),
      all_metadata = all_metadata st @ [c]\<rparr>"
  using assms
  by (simp add: partitioned_def distinct_append_bucket bucket_append_bucket mset_append_bucket)

lemma analyze_loop_partitioned:
  "analyze_loop lower papers st = Inr r \<Longrightarrow> partitioned st \<Longrightarrow>
     partitioned r \<and>
     (\<exists>cs. map_raising (classify_record lower) papers = Inr cs \<and>
           all_metadata r = all_metadata st @ cs)"
proof (induction papers arbitrary: st)
  case Nil
  then show ?case by simp
next
  case (Cons paper papers)
  from Cons.prems(1) obtain c where c: "classify_record lower paper = Inr c"
    by (cases "classify_record lower paper") (simp_all add: process_paper_classify)
  define st' where "st' =
     \<lparr>era_categories = append_bucket (m_era c) (metadata.truncate c) (era_categories st),
      medium_categories = append_bucket (m_medium c) (metadata.truncate c) (medium_categories st),
      all_metadata = all_metadata st @ [c]\<rparr>"
  have loop: "analyze_loop lower papers st' = Inr r"
    using Cons.prems(1) by (simp add: process_paper_classify c st'_def)
  have inv: "partitioned st'"
    unfolding st'_def by (rule partitioned_step[OF Cons.prems(2)])
  from Cons.IH[OF loop inv] obtain cs where p: "partitioned r"
    and cs: "map_raising (classify_record lower) papers = Inr cs"
    and a: "all_metadata r = all_metadata st' @ cs" by (elim conjE exE)
  have "map_raising (classify_record lower) (paper # papers) = Inr (c # cs)"
    by (simp add: c cs)
  moreover have "all_metadata r = all_metadata st @ (c # cs)"
    using a by (simp add: st'_def)
  ultimately show ?case using p by blast
qed

lemma map_raising_length: "map_raising f xs = Inr ys \<Longrightarrow> length ys = length xs"
proof (induction xs arbitrary: ys)
  case Nil
  then show ?case by simp
next
  case (Cons x xs)
  from Cons.prems obtain y where y: "f x = Inr y" by (cases "f x") simp_all
  from Cons.prems y obtain zs where zs: "map_raising f xs = Inr zs"
    by (cases "map_raising f xs") simp_all
  from Cons.prems y zs have "ys = y # zs" by simp
  then show ?case using Cons.IH[OF zs] by simp
qed

lemma partitioned_init:
  "partitioned \<lparr>era_categories = [], medium_categories = [], all_metadata = []\<rparr>"
  by (simp add: partitioned_def bucket_def)

lemma classify_record_total:
  assumes "text_fields_typed paper" and "sequence_fields_typed paper"
  shows "\<exists>c. classify_record lower paper = Inr c"
proof -
  obtain c where c: "era_content lower paper = Inr c"
    using era_content_total[OF assms(1), of lower] by (elim exE)
  obtain m where m: "medium_content lower paper = Inr m"
    using medium_content_total[OF assms(1), of lower] by (elim exE)
  obtain md where md: "extract_metadata_for_analysis paper = Inr md"
    using extract_metadata_total[OF assms] by (elim exE)
  show ?thesis
    by (simp add: classify_record_def categorize_by_era_def categorize_by_medium_def c m md)
qed

lemma analyze_loop_total:
  "list_all (\<lambda>paper. text_fields_typed paper \<and> sequence_fields_typed paper) papers \<Longrightarrow>
     \<exists>r. analyze_loop lower papers st = Inr r"
proof (induction papers arbitrary: st)
  case Nil
  then show ?case by simp
next
  case (Cons paper papers)
  from Cons.prems have t: "text_fields_typed paper" "sequence_fields_typed paper"
    and rest: "list_all (\<lambda>paper. text_fields_typed paper \<and> sequence_fields_typed paper) papers"
    by simp_all
  obtain c where c: "classify_record lower paper = Inr c"
    using classify_record_total[OF t, of lower] by (elim exE)
  show ?case
    using Cons.IH[OF rest] by (simp add: process_paper_classify c)
qed

lemma analyze_returns_on_typed_records:
  assumes "py_getitem data (str ''results'') = Inr (JList papers)"
    and "py_getitem data (str ''total'') = Inr n"
    and "list_all (\<lambda>paper. text_fields_typed paper \<and> sequence_fields_typed paper) papers"
  shows "\<exists>r. analyze_doaj_modernism lower data = Inr r"
proof -
  obtain r where r: "analyze_loop lower papers
      \<lparr>era_categories = [], medium_categories = [], all_metadata = []\<rparr> = Inr r"
    using analyze_loop_total[OF assms(3)] by blast
  show ?thesis
    by (simp add: analyze_doaj_modernism_def assms(1,2) py_iter_def r)
qed

text \<open>
  C7. Whenever \<open>analyze_doaj_modernism\<close> returns, every input record was
  classified once, in order; the list under each era label holds the metadata of
  exactly the records classified with that era, so a record lies in the bucket of
  its own label and in no other; and all era buckets together hold the metadata of
  every input record exactly once. The same holds for the medium buckets.
\<close>

theorem buckets_partition_records:
  assumes "analyze_doaj_modernism lower data = Inr r"
  shows "\<exists>papers.
           bnd (py_getitem data (str ''results'')) py_iter = Inr papers \<and>
           map_raising (classify_record lower) papers = Inr (all_metadata r) \<and>
           length (all_metadata r) = length papers \<and>
           distinct (map fst (era_categories r)) \<and>
           distinct (map fst (medium_categories r)) \<and>
           (\<forall>label. bucket (era_categories r) label =
              map metadata.truncate (filter (\<lambda>c. m_era c = label) (all_metadata r))) \<and>
           (\<forall>label. bucket (medium_categories r) label =
              map metadata.truncate (filter (\<lambda>c. m_medium c = label) (all_metadata r))) \<and>
           mset (concat (map snd (era_categories r))) =
             mset (map metadata.truncate (all_metadata r)) \<and>
           mset (concat (map snd (medium_categories r))) =
             mset (map metadata.truncate (all_metadata r))"
proof -
  from assms obtain papers where
    papers: "bnd (py_getitem data (str ''results'')) py_iter = Inr papers"
    unfolding analyze_doaj_modernism_def
    by (cases "bnd (py_getitem data (str ''results'')) py_iter") simp_all
  from assms papers obtain st where
    loop: "analyze_loop lower papers
             \<lparr>era_categories = [], medium_categories = [], all_metadata = []\<rparr> = Inr st"
    unfolding analyze_doaj_modernism_def
    by (cases "analyze_loop lower papers
             \<lparr>era_categories = [], medium_categories = [], all_metadata = []\<rparr>") simp_all
  have "st = r"
    using assms papers loop unfolding analyze_doaj_modernism_def
    by (cases "py_getitem data (str ''total'')") simp_all
  with loop have loop_r: "analyze_loop lower papers
             \<lparr>era_categories = [], medium_categories = [], all_metadata = []\<rparr> = Inr r"
    by simp
  from analyze_loop_partitioned[OF loop_r partitioned_init]
  obtain cs where p: "partitioned r"
    and cs: "map_raising (classify_record lower) papers = Inr cs"
    and a: "all_metadata r = cs" by auto
  have len: "length (all_metadata r) = length papers"
    using map_raising_length[OF cs] a by simp
  show ?thesis
    using papers cs a len p unfolding partitioned_def by blast
qed

theorem buckets_partition_records_witness:
  "(case analyze_doaj_modernism ascii_lower sample_data of
      Inl e \<Rightarrow> False
    | Inr r \<Rightarrow>
        map (\<lambda>kv. (fst kv, length (snd kv))) (era_categories r) =
          [(str ''High Modernism (1910s-1920s)'', 2), (str ''Late Modernism (1930s-1950s)'', 1)] \<and>
        map (\<lambda>kv. (fst kv, length (snd kv))) (medium_categories r) =
          [(str ''Academic Journal'', 2), (str ''Other Publication'', 1)] \<and>
        length (all_metadata r) = 3 \<and>
        mset (concat (map snd (era_categories r))) =
          mset (map metadata.truncate (all_metadata r)) \<and>
        mset (concat (map snd (medium_categories r))) =
          mset (map metadata.truncate (all_metadata r)))"
proof -
  have n: "\<not> isl (analyze_doaj_modernism ascii_lower sample_data)" by code_simp
  then obtain r where x: "analyze_doaj_modernism ascii_lower sample_data = Inr r"
    by (cases "analyze_doaj_modernism ascii_lower sample_data") simp_all
  have e: "map (\<lambda>kv. (fst kv, length (snd kv)))
             (era_categories (projr (analyze_doaj_modernism ascii_lower sample_data))) =
          [(str ''High Modernism (1910s-1920s)'', 2), (str ''Late Modernism (1930s-1950s)'', 1)]"
    by code_simp
  have m: "map (\<lambda>kv. (fst kv, length (snd kv)))
             (medium_categories (projr (analyze_doaj_modernism ascii_lower sample_data))) =
          [(str ''Academic Journal'', 2), (str ''Other Publication'', 1)]"
    by code_simp
  have l: "length (all_metadata (projr (analyze_doaj_modernism ascii_lower sample_data))) = 3"
    by code_simp
  from buckets_partition_records[OF x]
  have "mset (concat (map snd (era_categories r))) =
          mset (map metadata.truncate (all_metadata r))"
    and "mset (concat (map snd (medium_categories r))) =
          mset (map metadata.truncate (all_metadata r))"
    by auto
  then show ?thesis using x e m l by simp
qed

subsection \<open>The year range\<close>

lemma year_ints_skips_non_numeric:
  assumes "py_getitem p (str ''year'') = Inr (JStr s)" and "\<not> isdigit s"
  shows "year_ints isdigit to_int (ps @ p # qs) = year_ints isdigit to_int (ps @ qs)"
proof (induction ps)
  case Nil
  show ?case using assms by (simp add: py_isdigit_def)
next
  case (Cons a ps)
  show ?case
  proof (cases "bnd (py_getitem a (str ''year'')) (py_isdigit isdigit)")
    case (Inl e)
    then show ?thesis by simp
  next
    case (Inr numeric)
    then show ?thesis using Cons.IH by simp
  qed
qed

text \<open>
  C4. Records whose year is not numeric are left out of the range: the collection
  with the years \<open>n.d.\<close>, \<open>2015\<close>, the empty string, \<open>1999\<close> and \<open>c. 2001\<close>
  has the range 1999 to 2015. When no record is left, \<open>min\<close> is applied to an
  empty sequence: the collection with the years \<open>n.d.\<close> and the empty string, and
  the empty collection, raise \<open>ValueError\<close>.
\<close>

theorem year_range_without_numeric_year_raises:
  "year_range ascii_isdigit ascii_int undated_metadata = Inl ValueError
   \<and> year_range ascii_isdigit ascii_int [] = Inl ValueError
   \<and> year_range ascii_isdigit ascii_int mixed_metadata = Inr (1999, 2015)"
  by code_simp

end
